theory Spec2Isabelle
  imports Complex_Main
begin

section \<open>Monetary values and rounding\<close>

text \<open>
  The calculator works on Python \<^verbatim>\<open>Decimal\<close> values. A finite decimal is a rational
  number, and the sums, differences and products the calculator forms are exact as long
  as they fit the 28 significant digits of the default decimal context; the amounts of
  the data model have at most 12 digits and the rates at most 5, so a product has at
  most 17. Money is therefore modelled as \<^typ>\<open>rat\<close>, with exact arithmetic.

  \<^verbatim>\<open>_round\<close> is \<^verbatim>\<open>value.quantize(Decimal('0.01'), rounding=ROUND_HALF_UP)\<close>:
  the nearest multiple of 0.01, a tie going away from zero. Beyond 28 digits a product
  is no longer exact and \<^verbatim>\<open>quantize\<close> raises \<^verbatim>\<open>InvalidOperation\<close>; the model covers
  the amounts below that, which include every amount the database can hold.
\<close>

definition calc_round :: "rat \<Rightarrow> rat" where
  "calc_round v =
     (if 0 \<le> v then of_int \<lfloor>v * 100 + 1 / 2\<rfloor> / 100
      else - (of_int \<lfloor>- v * 100 + 1 / 2\<rfloor> / 100))"

section \<open>The calculator (payroll/services/calculator.py)\<close>

subsection \<open>Configuration\<close>

text \<open>
  \<^verbatim>\<open>self.config\<close> is a dictionary with the 21 keys of \<^verbatim>\<open>DEFAULT_CONFIG\<close>; every
  key is read with \<^verbatim>\<open>self.config[key]\<close>. It is a record with one field per key.
\<close>

record config =
  band_1_limit :: rat
  band_1_rate :: rat
  band_2_limit :: rat
  band_2_rate :: rat
  band_3_limit :: rat
  band_3_rate :: rat
  band_4_limit :: rat
  band_4_rate :: rat
  band_5_rate :: rat
  personal_relief :: rat
  insurance_relief_rate :: rat
  insurance_relief_max :: rat
  disability_exemption :: rat
  nssf_tier1_limit :: rat
  nssf_tier1_rate :: rat
  nssf_tier2_limit :: rat
  nssf_tier2_rate :: rat
  sha_rate :: rat
  housing_levy_rate :: rat
  pension_max_deduction :: rat
  mortgage_interest_max :: rat

definition DEFAULT_CONFIG :: config where
  "DEFAULT_CONFIG = \<lparr>
     band_1_limit = 24000,
     band_1_rate = 10 / 100,
     band_2_limit = 32333,
     band_2_rate = 25 / 100,
     band_3_limit = 500000,
     band_3_rate = 30 / 100,
     band_4_limit = 800000,
     band_4_rate = 325 / 1000,
     band_5_rate = 35 / 100,
     personal_relief = 2400,
     insurance_relief_rate = 15 / 100,
     insurance_relief_max = 5000,
     disability_exemption = 150000,
     nssf_tier1_limit = 7000,
     nssf_tier1_rate = 6 / 100,
     nssf_tier2_limit = 36000,
     nssf_tier2_rate = 6 / 100,
     sha_rate = 275 / 10000,
     housing_levy_rate = 15 / 1000,
     pension_max_deduction = 20000,
     mortgage_interest_max = 25000 \<rparr>"

text \<open>
  \<^verbatim>\<open>__init__\<close>: \<^verbatim>\<open>self.config = {**self.DEFAULT_CONFIG, **(config or {})}\<close>. The
  only caller that passes a dictionary (the processor) passes all 21 keys, so the merge
  is the dictionary passed; without one it is \<^verbatim>\<open>DEFAULT_CONFIG\<close>.
\<close>

definition PayrollCalculator :: "config option \<Rightarrow> config" where
  "PayrollCalculator cfg = (case cfg of None \<Rightarrow> DEFAULT_CONFIG | Some c \<Rightarrow> c)"

subsection \<open>Statutory deductions\<close>

definition calculate_nssf :: "config \<Rightarrow> rat \<Rightarrow> rat" where
  "calculate_nssf cfg gross_pay =
     (let tier1_limit = nssf_tier1_limit cfg;
          tier1_rate = nssf_tier1_rate cfg;
          tier2_limit = nssf_tier2_limit cfg;
          tier2_rate = nssf_tier2_rate cfg;
          tier1_pensionable = min gross_pay tier1_limit;
          tier1_contribution = calc_round (tier1_pensionable * tier1_rate);
          tier2_contribution =
            (if gross_pay > tier1_limit
             then calc_round ((min gross_pay tier2_limit - tier1_limit) * tier2_rate)
             else 0)
      in tier1_contribution + tier2_contribution)"

definition calculate_sha :: "config \<Rightarrow> rat \<Rightarrow> rat" where
  "calculate_sha cfg gross_pay = calc_round (gross_pay * sha_rate cfg)"

definition calculate_housing_levy :: "config \<Rightarrow> rat \<Rightarrow> rat" where
  "calculate_housing_levy cfg gross_pay = calc_round (gross_pay * housing_levy_rate cfg)"

subsection \<open>Progressive tax\<close>

text \<open>
  The band list of \<^verbatim>\<open>calculate_tax\<close>: four bands with an upper limit, and the top
  band whose limit is \<^verbatim>\<open>None\<close>.
\<close>

definition bands :: "config \<Rightarrow> (rat option \<times> rat) list" where
  "bands cfg =
     [(Some (band_1_limit cfg), band_1_rate cfg),
      (Some (band_2_limit cfg), band_2_rate cfg),
      (Some (band_3_limit cfg), band_3_rate cfg),
      (Some (band_4_limit cfg), band_4_rate cfg),
      (None, band_5_rate cfg)]"

text \<open>
  The \<^verbatim>\<open>for limit, rate in bands\<close> loop, with its three variables \<^verbatim>\<open>tax\<close>,
  \<^verbatim>\<open>remaining\<close> and \<^verbatim>\<open>previous_limit\<close> as arguments; the \<^verbatim>\<open>break\<close> returns
  the tax accumulated so far.
\<close>

fun tax_loop :: "(rat option \<times> rat) list \<Rightarrow> rat \<Rightarrow> rat \<Rightarrow> rat \<Rightarrow> rat" where
  "tax_loop [] tax remaining previous_limit = tax"
| "tax_loop ((limit, rate) # rest) tax remaining previous_limit =
     (if remaining \<le> 0 then tax
      else
        let band_income =
              (case limit of
                 None \<Rightarrow> remaining
               | Some l \<Rightarrow> min remaining (l - previous_limit));
            band_tax = calc_round (band_income * rate)
        in tax_loop rest (tax + band_tax) (remaining - band_income)
             (case limit of None \<Rightarrow> previous_limit | Some l \<Rightarrow> l))"

definition calculate_tax :: "config \<Rightarrow> rat \<Rightarrow> rat" where
  "calculate_tax cfg taxable_income =
     (if taxable_income \<le> 0 then 0
      else tax_loop (bands cfg) 0 taxable_income 0)"

definition calculate_insurance_relief :: "config \<Rightarrow> rat \<Rightarrow> rat" where
  "calculate_insurance_relief cfg insurance_premium =
     (let relief = calc_round (insurance_premium * insurance_relief_rate cfg);
          max_relief = insurance_relief_max cfg
      in min relief max_relief)"

subsection \<open>The complete calculation\<close>

text \<open>
  The inner dictionaries of \<^verbatim>\<open>allowances\<close> and \<^verbatim>\<open>deductions\<close> are read with
  \<^verbatim>\<open>details.get(key, default)\<close>, so a key may be absent: the fields are options.
  The outer dictionaries are iterated with \<^verbatim>\<open>.items()\<close>: they are association
  lists in insertion order, whose keys are distinct because they are dictionaries.
  \<^verbatim>\<open>Decimal(str(x))\<close> is the value of \<^verbatim>\<open>x\<close>: the processor passes
  \<^verbatim>\<open>float(amount)\<close> of a column with at most 12 digits, which \<^verbatim>\<open>str\<close> prints back
  digit for digit, a float keeping 15.
\<close>

record allowance_item =
  amount :: "rat option"
  taxable :: "bool option"

record deduction_item =
  amount :: "rat option"
  type :: "string option"

record payroll_result =
  basic_salary :: rat
  taxable_allowances :: rat
  non_taxable_allowances :: rat
  gross_pay :: rat
  pension_contribution :: rat
  pension_deductible :: rat
  owner_occupied_interest :: rat
  taxable_income :: rat
  tax_charged :: rat
  personal_relief :: rat
  insurance_relief :: rat
  disability_exemption :: rat
  paye :: rat
  nssf :: rat
  sha :: rat
  housing_levy :: rat
  loan_deductions :: rat
  sacco_deductions :: rat
  other_deductions :: rat
  total_deductions :: rat
  net_pay :: rat
  allowance_details :: "(string \<times> rat \<times> bool) list"
  deduction_details :: "(string \<times> rat \<times> string) list"

definition allowance_amount :: "allowance_item \<Rightarrow> rat" where
  "allowance_amount details = (case allowance_item.amount details of None \<Rightarrow> 0 | Some a \<Rightarrow> a)"

definition allowance_is_taxable :: "allowance_item \<Rightarrow> bool" where
  "allowance_is_taxable details = (case taxable details of None \<Rightarrow> True | Some b \<Rightarrow> b)"

definition deduction_amount :: "deduction_item \<Rightarrow> rat" where
  "deduction_amount details = (case deduction_item.amount details of None \<Rightarrow> 0 | Some a \<Rightarrow> a)"

definition deduction_type_of :: "deduction_item \<Rightarrow> string" where
  "deduction_type_of details = (case type details of None \<Rightarrow> ''other'' | Some t \<Rightarrow> t)"

text \<open>
  Step 1 of \<^verbatim>\<open>calculate\<close>: the loop over the allowances, returning
  \<^verbatim>\<open>(taxable_allowances, non_taxable_allowances)\<close>.
\<close>

fun sum_allowances :: "(string \<times> allowance_item) list \<Rightarrow> rat \<times> rat \<Rightarrow> rat \<times> rat" where
  "sum_allowances [] acc = acc"
| "sum_allowances ((name, details) # rest) (taxable_total, non_taxable_total) =
     (let amount = allowance_amount details;
          is_taxable = allowance_is_taxable details
      in if is_taxable
         then sum_allowances rest (taxable_total + amount, non_taxable_total)
         else sum_allowances rest (taxable_total, non_taxable_total + amount))"

text \<open>
  Step 11: the loop over the deductions, returning
  \<^verbatim>\<open>(loan_deductions, sacco_deductions, other_deductions_total)\<close>.
\<close>

fun sum_deductions ::
  "(string \<times> deduction_item) list \<Rightarrow> rat \<times> rat \<times> rat \<Rightarrow> rat \<times> rat \<times> rat" where
  "sum_deductions [] acc = acc"
| "sum_deductions ((name, details) # rest) (loan_total, sacco_total, other_total) =
     (let amount = deduction_amount details;
          deduction_type = deduction_type_of details
      in if deduction_type = ''loan''
         then sum_deductions rest (loan_total + amount, sacco_total, other_total)
         else if deduction_type = ''sacco''
         then sum_deductions rest (loan_total, sacco_total + amount, other_total)
         else sum_deductions rest (loan_total, sacco_total, other_total + amount))"

text \<open>
  The detail dictionaries keep \<^verbatim>\<open>float(amount)\<close> for the breakdown; the model keeps
  the amount itself. The parameters of \<^verbatim>\<open>calculate\<close> are bound by a
  \<open>\<lambda>\<close> so that they keep the names of the source, several of which are also
  fields of the result.
\<close>

definition calculate ::
  "config \<Rightarrow> rat \<Rightarrow> (string \<times> allowance_item) list \<Rightarrow> (string \<times> deduction_item) list \<Rightarrow>
   rat \<Rightarrow> rat \<Rightarrow> rat \<Rightarrow> bool \<Rightarrow> payroll_result" where
  "calculate cfg =
     (\<lambda>basic_salary allowances deductions pension_contribution mortgage_interest
        insurance_premium has_disability.
      let (taxable_allowances, non_taxable_allowances) = sum_allowances allowances (0, 0);
          allowance_details =
            map (\<lambda>(name, details). (name, allowance_amount details, allowance_is_taxable details))
              allowances;
          gross_pay = basic_salary + taxable_allowances + non_taxable_allowances;
          nssf = calculate_nssf cfg gross_pay;
          pension_max = pension_max_deduction cfg;
          pension_deductible = min pension_contribution pension_max;
          mortgage_max = mortgage_interest_max cfg;
          owner_occupied_interest = min mortgage_interest mortgage_max;
          taxable_income =
            max (gross_pay - nssf - pension_deductible - owner_occupied_interest) 0;
          tax_charged = calculate_tax cfg taxable_income;
          personal_relief = config.personal_relief cfg;
          insurance_relief = calculate_insurance_relief cfg insurance_premium;
          disability_exemption = (if has_disability then config.disability_exemption cfg else 0);
          total_relief = personal_relief + insurance_relief + disability_exemption;
          paye = calc_round (max (tax_charged - total_relief) 0);
          sha = calculate_sha cfg gross_pay;
          housing_levy = calculate_housing_levy cfg gross_pay;
          (loan_deductions, sacco_deductions, other_deductions_total) =
            sum_deductions deductions (0, 0, 0);
          deduction_details =
            map (\<lambda>(name, details). (name, deduction_amount details, deduction_type_of details))
              deductions;
          total_deductions =
            paye + nssf + sha + housing_levy + loan_deductions + sacco_deductions
            + other_deductions_total;
          net_pay = calc_round (gross_pay - total_deductions)
      in \<lparr> basic_salary = calc_round basic_salary,
           taxable_allowances = calc_round taxable_allowances,
           non_taxable_allowances = calc_round non_taxable_allowances,
           gross_pay = calc_round gross_pay,
           pension_contribution = calc_round pension_contribution,
           pension_deductible = calc_round pension_deductible,
           owner_occupied_interest = calc_round owner_occupied_interest,
           taxable_income = calc_round taxable_income,
           tax_charged = calc_round tax_charged,
           personal_relief = calc_round personal_relief,
           insurance_relief = calc_round insurance_relief,
           disability_exemption = calc_round disability_exemption,
           paye = paye,
           nssf = nssf,
           sha = sha,
           housing_levy = housing_levy,
           loan_deductions = calc_round loan_deductions,
           sacco_deductions = calc_round sacco_deductions,
           other_deductions = calc_round other_deductions_total,
           total_deductions = calc_round total_deductions,
           net_pay = net_pay,
           allowance_details = allowance_details,
           deduction_details = deduction_details \<rparr>)"

section \<open>Dates, errors and names\<close>

text \<open>
  A \<^verbatim>\<open>datetime.date\<close> is the triple (year, month, day), compared lexicographically.
\<close>

type_synonym date = "int \<times> int \<times> int"

definition date_le :: "date \<Rightarrow> date \<Rightarrow> bool" where
  "date_le a b =
     (case a of (y1, m1, d1) \<Rightarrow> case b of (y2, m2, d2) \<Rightarrow>
        y1 < y2 \<or> (y1 = y2 \<and> (m1 < m2 \<or> (m1 = m2 \<and> d1 \<le> d2))))"

text \<open>The exceptions the processor and the models can raise.\<close>

datatype error =
    NameError string
  | ValueError string
  | IndexError string
  | MultipleObjectsReturned

text \<open>
  \<^verbatim>\<open>str(n)\<close> of an integer, and \<^verbatim>\<open>str.strip()\<close>. A character is a code point below
  256; the white space among them is what \<^verbatim>\<open>str.isspace\<close> accepts there.
\<close>

definition digit_char :: "nat \<Rightarrow> char" where
  "digit_char d = char_of (48 + d)"

fun str_nat :: "nat \<Rightarrow> string" where
  "str_nat n = (if n < 10 then [digit_char n] else str_nat (n div 10) @ [digit_char (n mod 10)])"

definition str_int :: "int \<Rightarrow> string" where
  "str_int i = (if i < 0 then CHR ''-'' # str_nat (nat (- i)) else str_nat (nat i))"

definition is_space :: "char \<Rightarrow> bool" where
  "is_space c = (c \<in> set [CHR '' '', CHR 0x09, CHR 0x0A, CHR 0x0B, CHR 0x0C, CHR 0x0D,
                           CHR 0x1C, CHR 0x1D, CHR 0x1E, CHR 0x1F, CHR 0x85, CHR 0xA0])"

definition strip :: "string \<Rightarrow> string" where
  "strip s = rev (dropWhile is_space (rev (dropWhile is_space s)))"

text \<open>
  \<^verbatim>\<open>datetime.date(year, month, 1)\<close>: the constructor checks the year, then the month;
  day 1 exists in every month.
\<close>

definition datetime_date_first :: "int \<Rightarrow> int \<Rightarrow> error + date" where
  "datetime_date_first y m =
     (if \<not> (1 \<le> y \<and> y \<le> 9999)
      then Inl (ValueError (''year '' @ str_int y @ '' is out of range''))
      else if \<not> (1 \<le> m \<and> m \<le> 12) then Inl (ValueError ''month must be in 1..12'')
      else Inr (y, m, 1))"

text \<open>
  The names bound at module level in processor.py: its imports (lines 5 to 13), the
  logger and the class. A name used in a method and bound neither locally nor here nor
  as a builtin raises \<^verbatim>\<open>NameError\<close> when the expression is evaluated.
\<close>

definition processor_module_names :: "string list" where
  "processor_module_names =
     [''Decimal'', ''List'', ''Optional'', ''timezone'', ''transaction'', ''logging'',
      ''User'', ''EmployeeAllowance'', ''EmployeeDeduction'',
      ''PayrollPeriod'', ''PayrollEntry'', ''TaxTable'',
      ''PayrollCalculator'', ''logger'', ''PayrollProcessor'']"

definition resolve_global :: "string \<Rightarrow> error + unit" where
  "resolve_global n = (if n \<in> set processor_module_names then Inr () else Inl (NameError n))"

section \<open>The data model (employees/models.py, payroll/models.py)\<close>

text \<open>
  A model instance is a record of the fields the payroll code reads or writes; a foreign
  key is the primary key of the row it points to; a table is the list of its rows in
  the order a query with the model's default ordering returns them.
\<close>

datatype employment_status = ACTIVE | ON_LEAVE | SUSPENDED | TERMINATED | RESIGNED

record user =
  uid :: nat
  first_name :: string
  last_name :: string
  email :: string
  employment_status :: employment_status
  is_active :: bool
  basic_salary :: rat
  has_disability :: bool

definition get_full_name :: "user \<Rightarrow> string" where
  "get_full_name u =
     (let full = strip (first_name u @ '' '' @ last_name u)
      in if full \<noteq> [] then full else email u)"

datatype allowance_type =
  HOUSE | TRANSPORT | MEDICAL | AIRTIME | LUNCH | HARDSHIP | RESPONSIBILITY | OTHER_ALLOWANCE

fun get_allowance_type_display :: "allowance_type \<Rightarrow> string" where
  "get_allowance_type_display HOUSE = ''House Allowance''"
| "get_allowance_type_display TRANSPORT = ''Transport Allowance''"
| "get_allowance_type_display MEDICAL = ''Medical Allowance''"
| "get_allowance_type_display AIRTIME = ''Airtime Allowance''"
| "get_allowance_type_display LUNCH = ''Lunch Allowance''"
| "get_allowance_type_display HARDSHIP = ''Hardship Allowance''"
| "get_allowance_type_display RESPONSIBILITY = ''Responsibility Allowance''"
| "get_allowance_type_display OTHER_ALLOWANCE = ''Other Allowance''"

record employee_allowance =
  employee :: nat
  allowance_type :: allowance_type
  name :: string
  amount :: rat
  is_taxable :: bool
  effective_from :: date
  effective_to :: "date option"

datatype deduction_type = LOAN | ADVANCE | SACCO | INSURANCE | PENSION | OTHER

text \<open>The value a \<^verbatim>\<open>DeductionType\<close> member stores in the column.\<close>

fun deduction_type_value :: "deduction_type \<Rightarrow> string" where
  "deduction_type_value LOAN = ''loan''"
| "deduction_type_value ADVANCE = ''advance''"
| "deduction_type_value SACCO = ''sacco''"
| "deduction_type_value INSURANCE = ''insurance''"
| "deduction_type_value PENSION = ''pension''"
| "deduction_type_value OTHER = ''other''"

record employee_deduction =
  employee :: nat
  deduction_type :: deduction_type
  name :: string
  amount :: rat
  is_pretax :: bool
  effective_from :: date
  effective_to :: "date option"

text \<open>
  \<^verbatim>\<open>TaxTable\<close> has the 21 statutory fields under the names of the configuration
  keys, and its validity window.
\<close>

record tax_table = config +
  effective_from :: date
  effective_to :: "date option"
  is_active :: bool

datatype status = DRAFT | PENDING_HR | PENDING_MANAGEMENT | APPROVED | PAID | CANCELLED

record payroll_period =
  pid :: nat
  year :: int
  month :: int
  name :: string
  status :: status
  prepared_by :: "nat option"
  prepared_at :: "nat option"
  hr_approved_by :: "nat option"
  hr_approved_at :: "nat option"
  hr_comments :: string
  mgmt_approved_by :: "nat option"
  mgmt_approved_at :: "nat option"
  mgmt_comments :: string
  total_gross :: rat
  total_net :: rat
  total_paye :: rat
  total_nssf :: rat
  total_sha :: rat
  total_housing_levy :: rat

record payroll_entry =
  payroll_period :: nat
  employee :: nat
  basic_salary :: rat
  taxable_allowances :: rat
  non_taxable_allowances :: rat
  benefits_in_kind :: rat
  overtime :: rat
  bonus :: rat
  gross_pay :: rat
  pension_contribution :: rat
  owner_occupied_interest :: rat
  taxable_income :: rat
  tax_charged :: rat
  personal_relief :: rat
  insurance_relief :: rat
  disability_exemption :: rat
  paye :: rat
  nssf :: rat
  sha :: rat
  housing_levy :: rat
  loan_deductions :: rat
  sacco_deductions :: rat
  other_deductions :: rat
  total_deductions :: rat
  net_pay :: rat
  allowance_details :: "(string \<times> rat \<times> bool) list"
  deduction_details :: "(string \<times> rat \<times> string) list"
  payslip_generated :: bool
  payslip_file :: string

record db =
  users :: "user list"
  allowance_rows :: "employee_allowance list"
  deduction_rows :: "employee_deduction list"
  tax_tables :: "tax_table list"
  entries :: "payroll_entry list"

section \<open>Model methods (payroll/models.py)\<close>

text \<open>
  A validity window: \<^verbatim>\<open>effective_from__lte=date\<close>, and
  \<^verbatim>\<open>Q(effective_to__isnull=True) | Q(effective_to__gte=date)\<close>.
\<close>

definition effective_from_lte :: "date \<Rightarrow> date \<Rightarrow> bool" where
  "effective_from_lte from_date d = date_le from_date d"

definition effective_to_open_or_gte :: "date option \<Rightarrow> date \<Rightarrow> bool" where
  "effective_to_open_or_gte to_date d = (case to_date of None \<Rightarrow> True | Some t \<Rightarrow> date_le d t)"

text \<open>\<^verbatim>\<open>QuerySet.first()\<close>.\<close>

definition first :: "'a list \<Rightarrow> 'a option" where
  "first rows = (case rows of [] \<Rightarrow> None | r # _ \<Rightarrow> Some r)"

text \<open>
  \<^verbatim>\<open>TaxTable.get_active(date=None)\<close>; \<open>today\<close> is \<^verbatim>\<open>timezone.now().date()\<close>.
  The table list is in the model's ordering, most recent \<^verbatim>\<open>effective_from\<close> first.
\<close>

definition get_active :: "tax_table list \<Rightarrow> date option \<Rightarrow> date \<Rightarrow> tax_table option" where
  "get_active tables date today =
     (let d = (case date of None \<Rightarrow> today | Some given \<Rightarrow> given)
      in first
           (filter (\<lambda>t. effective_to_open_or_gte (tax_table.effective_to t) d)
              (filter (\<lambda>t. tax_table.is_active t \<and> effective_from_lte (tax_table.effective_from t) d)
                 tables)))"

text \<open>
  \<^verbatim>\<open>get_month_name\<close> indexes a list of 13 strings with \<^verbatim>\<open>self.month\<close>; a negative
  index counts from the end, and an index outside the list raises.
\<close>

definition months :: "string list" where
  "months = ['''', ''January'', ''February'', ''March'', ''April'', ''May'', ''June'',
             ''July'', ''August'', ''September'', ''October'', ''November'', ''December'']"

definition get_month_name :: "payroll_period \<Rightarrow> error + string" where
  "get_month_name p =
     (let n = int (length months);
          i = (if month p < 0 then n + month p else month p)
      in if 0 \<le> i \<and> i < n then Inr (months ! nat i)
         else Inl (IndexError ''list index out of range''))"

text \<open>
  \<^verbatim>\<open>PayrollPeriod.save\<close>: an empty name is filled in before the row is written. The
  row written is the period returned.
\<close>

definition save :: "payroll_period \<Rightarrow> error + payroll_period" where
  "save p =
     (if name p = []
      then (case get_month_name p of
              Inl e \<Rightarrow> Inl e
            | Inr m \<Rightarrow> Inr (p\<lparr>name := m @ '' '' @ str_int (year p)\<rparr>))
      else Inr p)"

text \<open>
  \<^verbatim>\<open>calculate_totals\<close>: \<^verbatim>\<open>self.entries.all()\<close> are the entries whose period is this
  one. The six totals are assigned before \<^verbatim>\<open>save\<close>; when \<^verbatim>\<open>save\<close> raises, the
  object keeps them, so the error carries the period as it then is.
\<close>

definition period_entries :: "payroll_entry list \<Rightarrow> payroll_period \<Rightarrow> payroll_entry list" where
  "period_entries rows p = filter (\<lambda>e. payroll_entry.payroll_period e = pid p) rows"

definition calculate_totals ::
  "payroll_entry list \<Rightarrow> payroll_period \<Rightarrow> (error \<times> payroll_period) + payroll_period" where
  "calculate_totals rows p =
     (let es = period_entries rows p;
          p' = p\<lparr> total_gross := sum_list (map payroll_entry.gross_pay es),
                  total_net := sum_list (map payroll_entry.net_pay es),
                  total_paye := sum_list (map payroll_entry.paye es),
                  total_nssf := sum_list (map payroll_entry.nssf es),
                  total_sha := sum_list (map payroll_entry.sha es),
                  total_housing_levy := sum_list (map payroll_entry.housing_levy es) \<rparr>
      in case save p' of Inl e \<Rightarrow> Inl (e, p') | Inr saved \<Rightarrow> Inr saved)"

section \<open>The processor (payroll/services/processor.py)\<close>

record processor =
  payroll_period :: payroll_period
  calculator :: config

text \<open>
  \<^verbatim>\<open>_get_calculator\<close> calls \<^verbatim>\<open>TaxTable.get_active()\<close> without a date, and copies the
  21 fields of the table found into the configuration dictionary; without a table it
  returns \<^verbatim>\<open>PayrollCalculator()\<close>.
\<close>

definition get_calculator :: "db \<Rightarrow> date \<Rightarrow> config" where
  "get_calculator d today =
     (case get_active (tax_tables d) None today of
        Some t \<Rightarrow>
          PayrollCalculator (Some \<lparr>
            band_1_limit = band_1_limit t,
            band_1_rate = band_1_rate t,
            band_2_limit = band_2_limit t,
            band_2_rate = band_2_rate t,
            band_3_limit = band_3_limit t,
            band_3_rate = band_3_rate t,
            band_4_limit = band_4_limit t,
            band_4_rate = band_4_rate t,
            band_5_rate = band_5_rate t,
            personal_relief = config.personal_relief t,
            insurance_relief_rate = insurance_relief_rate t,
            insurance_relief_max = insurance_relief_max t,
            disability_exemption = config.disability_exemption t,
            nssf_tier1_limit = nssf_tier1_limit t,
            nssf_tier1_rate = nssf_tier1_rate t,
            nssf_tier2_limit = nssf_tier2_limit t,
            nssf_tier2_rate = nssf_tier2_rate t,
            sha_rate = sha_rate t,
            housing_levy_rate = housing_levy_rate t,
            pension_max_deduction = pension_max_deduction t,
            mortgage_interest_max = mortgage_interest_max t \<rparr>)
      | None \<Rightarrow> PayrollCalculator None)"

text \<open>\<^verbatim>\<open>PayrollProcessor.__init__\<close>.\<close>

definition PayrollProcessor :: "db \<Rightarrow> date \<Rightarrow> payroll_period \<Rightarrow> processor" where
  "PayrollProcessor d today p =
     \<lparr> processor.payroll_period = p, calculator = get_calculator d today \<rparr>"

definition get_active_employees :: "db \<Rightarrow> user list" where
  "get_active_employees d =
     filter (\<lambda>u. user.employment_status u = ACTIVE \<and> user.is_active u) (users d)"

text \<open>
  \<^verbatim>\<open>result[key] = value\<close> on a dictionary: an existing key keeps its place and takes
  the new value, a new key goes to the end.
\<close>

fun dict_set :: "'k \<Rightarrow> 'v \<Rightarrow> ('k \<times> 'v) list \<Rightarrow> ('k \<times> 'v) list" where
  "dict_set k v [] = [(k, v)]"
| "dict_set k v ((k', v') # rest) =
     (if k' = k then (k, v) # rest else (k', v') # dict_set k v rest)"

text \<open>
  \<^verbatim>\<open>get_employee_allowances\<close> builds its query with \<^verbatim>\<open>models.Q\<close>, and the function
  has no local \<^verbatim>\<open>models\<close>: the name is looked up among the module's names when the
  argument of the second \<^verbatim>\<open>filter\<close> is evaluated, before any row is read.
  \<^verbatim>\<open>float(allowance.amount)\<close> is modelled by the amount, which the calculator reads
  back from it unchanged.
\<close>

definition get_employee_allowances ::
  "db \<Rightarrow> user \<Rightarrow> date \<Rightarrow> error + (string \<times> allowance_item) list" where
  "get_employee_allowances d u period_date =
     (case resolve_global ''models'' of
        Inl e \<Rightarrow> Inl e
      | Inr _ \<Rightarrow>
          let allowances =
                filter (\<lambda>a. effective_to_open_or_gte (employee_allowance.effective_to a) period_date)
                  (filter (\<lambda>a. employee_allowance.employee a = uid u
                              \<and> effective_from_lte (employee_allowance.effective_from a) period_date)
                     (allowance_rows d))
          in Inr (fold
                    (\<lambda>allowance result.
                       dict_set
                         (if employee_allowance.name allowance \<noteq> []
                          then employee_allowance.name allowance
                          else get_allowance_type_display (allowance_type allowance))
                         \<lparr> allowance_item.amount = Some (employee_allowance.amount allowance),
                           taxable = Some (is_taxable allowance) \<rparr>
                         result)
                    allowances []))"

text \<open>
  The three deduction queries import \<^verbatim>\<open>models\<close> locally (\<^verbatim>\<open>from django.db import
  models\<close>), so they run. \<^verbatim>\<open>get_employee_deductions\<close> keeps every row valid at the
  period date, whatever its type, keyed by the row's name.
\<close>

definition get_employee_deductions ::
  "db \<Rightarrow> user \<Rightarrow> date \<Rightarrow> (string \<times> deduction_item) list" where
  "get_employee_deductions d u period_date =
     (let deductions =
            filter (\<lambda>r. effective_to_open_or_gte (employee_deduction.effective_to r) period_date)
              (filter (\<lambda>r. employee_deduction.employee r = uid u
                          \<and> effective_from_lte (employee_deduction.effective_from r) period_date)
                 (deduction_rows d))
      in fold
           (\<lambda>deduction result.
              dict_set (employee_deduction.name deduction)
                \<lparr> deduction_item.amount = Some (employee_deduction.amount deduction),
                  type = Some (deduction_type_value (deduction_type deduction)) \<rparr>
                result)
           deductions [])"

definition get_pension_contribution :: "db \<Rightarrow> user \<Rightarrow> date \<Rightarrow> rat" where
  "get_pension_contribution d u period_date =
     (let pension =
            first
              (filter (\<lambda>r. effective_to_open_or_gte (employee_deduction.effective_to r) period_date)
                 (filter (\<lambda>r. employee_deduction.employee r = uid u
                             \<and> deduction_type r = PENSION
                             \<and> effective_from_lte (employee_deduction.effective_from r) period_date
                             \<and> is_pretax r)
                    (deduction_rows d)))
      in case pension of Some r \<Rightarrow> employee_deduction.amount r | None \<Rightarrow> 0)"

definition get_insurance_premium :: "db \<Rightarrow> user \<Rightarrow> date \<Rightarrow> rat" where
  "get_insurance_premium d u period_date =
     (let insurance =
            first
              (filter (\<lambda>r. effective_to_open_or_gte (employee_deduction.effective_to r) period_date)
                 (filter (\<lambda>r. employee_deduction.employee r = uid u
                             \<and> deduction_type r = INSURANCE
                             \<and> effective_from_lte (employee_deduction.effective_from r) period_date)
                    (deduction_rows d)))
      in case insurance of Some r \<Rightarrow> employee_deduction.amount r | None \<Rightarrow> 0)"

subsection \<open>Writing an entry\<close>

text \<open>
  The \<^verbatim>\<open>defaults\<close> of \<^verbatim>\<open>update_or_create\<close>: the 22 fields the processor copies from
  the result. \<^verbatim>\<open>pension_deductible\<close> is not among them, and the entry's other fields
  are left as they are.
\<close>

definition apply_defaults :: "payroll_result \<Rightarrow> payroll_entry \<Rightarrow> payroll_entry" where
  "apply_defaults result entry =
     entry\<lparr> payroll_entry.basic_salary := payroll_result.basic_salary result,
            payroll_entry.taxable_allowances := payroll_result.taxable_allowances result,
            payroll_entry.non_taxable_allowances := payroll_result.non_taxable_allowances result,
            payroll_entry.gross_pay := payroll_result.gross_pay result,
            payroll_entry.pension_contribution := payroll_result.pension_contribution result,
            payroll_entry.owner_occupied_interest := payroll_result.owner_occupied_interest result,
            payroll_entry.taxable_income := payroll_result.taxable_income result,
            payroll_entry.tax_charged := payroll_result.tax_charged result,
            payroll_entry.personal_relief := payroll_result.personal_relief result,
            payroll_entry.insurance_relief := payroll_result.insurance_relief result,
            payroll_entry.disability_exemption := payroll_result.disability_exemption result,
            payroll_entry.paye := payroll_result.paye result,
            payroll_entry.nssf := payroll_result.nssf result,
            payroll_entry.sha := payroll_result.sha result,
            payroll_entry.housing_levy := payroll_result.housing_levy result,
            payroll_entry.loan_deductions := payroll_result.loan_deductions result,
            payroll_entry.sacco_deductions := payroll_result.sacco_deductions result,
            payroll_entry.other_deductions := payroll_result.other_deductions result,
            payroll_entry.total_deductions := payroll_result.total_deductions result,
            payroll_entry.net_pay := payroll_result.net_pay result,
            payroll_entry.allowance_details := payroll_result.allowance_details result,
            payroll_entry.deduction_details := payroll_result.deduction_details result \<rparr>"

text \<open>A new \<^verbatim>\<open>PayrollEntry\<close> row with the field defaults of the model.\<close>

definition new_entry :: "nat \<Rightarrow> nat \<Rightarrow> payroll_entry" where
  "new_entry p u =
     \<lparr> payroll_entry.payroll_period = p,
       payroll_entry.employee = u,
       payroll_entry.basic_salary = 0,
       payroll_entry.taxable_allowances = 0,
       payroll_entry.non_taxable_allowances = 0,
       benefits_in_kind = 0,
       overtime = 0,
       bonus = 0,
       payroll_entry.gross_pay = 0,
       payroll_entry.pension_contribution = 0,
       payroll_entry.owner_occupied_interest = 0,
       payroll_entry.taxable_income = 0,
       payroll_entry.tax_charged = 0,
       payroll_entry.personal_relief = 2400,
       payroll_entry.insurance_relief = 0,
       payroll_entry.disability_exemption = 0,
       payroll_entry.paye = 0,
       payroll_entry.nssf = 0,
       payroll_entry.sha = 0,
       payroll_entry.housing_levy = 0,
       payroll_entry.loan_deductions = 0,
       payroll_entry.sacco_deductions = 0,
       payroll_entry.other_deductions = 0,
       payroll_entry.total_deductions = 0,
       payroll_entry.net_pay = 0,
       payroll_entry.allowance_details = [],
       payroll_entry.deduction_details = [],
       payslip_generated = False,
       payslip_file = [] \<rparr>"

text \<open>
  \<^verbatim>\<open>PayrollEntry.objects.update_or_create(payroll_period=..., employee=...,
  defaults=...)\<close>: the row with this period and employee is looked up with \<^verbatim>\<open>get\<close>;
  without one a row is created, one row is updated in place, and several rows raise.
  It returns the table, the entry and \<^verbatim>\<open>created\<close>.
\<close>

definition same_key :: "nat \<Rightarrow> nat \<Rightarrow> payroll_entry \<Rightarrow> bool" where
  "same_key p u e = (payroll_entry.payroll_period e = p \<and> payroll_entry.employee e = u)"

definition update_or_create ::
  "payroll_entry list \<Rightarrow> nat \<Rightarrow> nat \<Rightarrow> payroll_result \<Rightarrow>
   error + (payroll_entry list \<times> payroll_entry \<times> bool)" where
  "update_or_create rows p u result =
     (case filter (same_key p u) rows of
        [] \<Rightarrow>
          (let entry = apply_defaults result (new_entry p u)
           in Inr (rows @ [entry], entry, True))
      | [found] \<Rightarrow>
          (let entry = apply_defaults result found
           in Inr (map (\<lambda>e. if same_key p u e then entry else e) rows, entry, False))
      | _ \<Rightarrow> Inl MultipleObjectsReturned)"

subsection \<open>process\_employee\<close>

text \<open>
  The part of \<^verbatim>\<open>process_employee\<close> after the allowances are fetched (from line 175):
  the three deduction queries, the call of the calculator, which passes no
  \<^verbatim>\<open>mortgage_interest\<close> so that the parameter takes its default \<^verbatim>\<open>Decimal('0')\<close>, and
  the write of the entry.
\<close>

definition employee_result ::
  "processor \<Rightarrow> db \<Rightarrow> user \<Rightarrow> date \<Rightarrow> (string \<times> allowance_item) list \<Rightarrow> payroll_result" where
  "employee_result proc d u period_date allowances =
     (let deductions = get_employee_deductions d u period_date;
          pension = get_pension_contribution d u period_date;
          insurance = get_insurance_premium d u period_date
      in calculate (calculator proc) (user.basic_salary u) allowances deductions
           pension 0 insurance (has_disability u))"

definition store_employee ::
  "processor \<Rightarrow> db \<Rightarrow> user \<Rightarrow> date \<Rightarrow> (string \<times> allowance_item) list \<Rightarrow>
   error + (db \<times> payroll_entry)" where
  "store_employee proc d u period_date allowances =
     (let result = employee_result proc d u period_date allowances
      in case update_or_create (entries d) (pid (processor.payroll_period proc)) (uid u) result of
           Inl e \<Rightarrow> Inl e
         | Inr (rows, entry, created) \<Rightarrow> Inr (d\<lparr>entries := rows\<rparr>, entry))"

definition process_employee :: "processor \<Rightarrow> db \<Rightarrow> user \<Rightarrow> error + (db \<times> payroll_entry)" where
  "process_employee proc d u =
     (case datetime_date_first (year (processor.payroll_period proc))
             (month (processor.payroll_period proc)) of
        Inl e \<Rightarrow> Inl e
      | Inr period_date \<Rightarrow>
          (case get_employee_allowances d u period_date of
             Inl e \<Rightarrow> Inl e
           | Inr allowances \<Rightarrow> store_employee proc d u period_date allowances))"

subsection \<open>process\_all and the approvals\<close>

text \<open>
  The methods are \<^verbatim>\<open>@transaction.atomic\<close>: when one raises, the database is as it was
  before the call, so an error carries no database. The period object is not part of
  the transaction: an error carries the processor with the period as the method left it.
  \<open>now\<close> is \<^verbatim>\<open>timezone.now()\<close>.
\<close>

fun process_employees :: "processor \<Rightarrow> db \<Rightarrow> user list \<Rightarrow> error + db" where
  "process_employees proc d [] = Inr d"
| "process_employees proc d (u # rest) =
     (case process_employee proc d u of
        Inl e \<Rightarrow> Inl e
      | Inr (d', entry) \<Rightarrow> process_employees proc d' rest)"

definition process_all ::
  "processor \<Rightarrow> db \<Rightarrow> user \<Rightarrow> nat \<Rightarrow> (error \<times> processor) + (db \<times> processor)" where
  "process_all proc d by_user now =
     (let employees = get_active_employees d
      in case process_employees proc d employees of
           Inl e \<Rightarrow> Inl (e, proc)
         | Inr d' \<Rightarrow>
             (let p = (processor.payroll_period proc)
                        \<lparr> prepared_by := Some (uid by_user),
                          prepared_at := Some now,
                          status := PENDING_HR \<rparr>
              in case calculate_totals (entries d') p of
                   Inl (e, p') \<Rightarrow> Inl (e, proc\<lparr>processor.payroll_period := p'\<rparr>)
                 | Inr p' \<Rightarrow> Inr (d', proc\<lparr>processor.payroll_period := p'\<rparr>)))"

definition approve_hr ::
  "processor \<Rightarrow> user \<Rightarrow> string \<Rightarrow> nat \<Rightarrow> (error \<times> processor) + processor" where
  "approve_hr proc by_user comments now =
     (if status (processor.payroll_period proc) \<noteq> PENDING_HR
      then Inl (ValueError ''Payroll is not pending HR approval'', proc)
      else
        let p = (processor.payroll_period proc)
                  \<lparr> hr_approved_by := Some (uid by_user),
                    hr_approved_at := Some now,
                    hr_comments := comments,
                    status := PENDING_MANAGEMENT \<rparr>
        in case save p of
             Inl e \<Rightarrow> Inl (e, proc\<lparr>processor.payroll_period := p\<rparr>)
           | Inr p' \<Rightarrow> Inr (proc\<lparr>processor.payroll_period := p'\<rparr>))"

definition approve_management ::
  "processor \<Rightarrow> user \<Rightarrow> string \<Rightarrow> nat \<Rightarrow> (error \<times> processor) + processor" where
  "approve_management proc by_user comments now =
     (if status (processor.payroll_period proc) \<noteq> PENDING_MANAGEMENT
      then Inl (ValueError ''Payroll is not pending management approval'', proc)
      else
        let p = (processor.payroll_period proc)
                  \<lparr> mgmt_approved_by := Some (uid by_user),
                    mgmt_approved_at := Some now,
                    mgmt_comments := comments,
                    status := APPROVED \<rparr>
        in case save p of
             Inl e \<Rightarrow> Inl (e, proc\<lparr>processor.payroll_period := p\<rparr>)
           | Inr p' \<Rightarrow> Inr (proc\<lparr>processor.payroll_period := p'\<rparr>))"

text \<open>\<^verbatim>\<open>reject\<close> starts with the assignment of the status: it reads no status.\<close>

definition reject :: "processor \<Rightarrow> user \<Rightarrow> string \<Rightarrow> (error \<times> processor) + processor" where
  "reject proc by_user comments =
     (let p0 = (processor.payroll_period proc)
                 \<lparr> status := DRAFT,
                   hr_approved_by := None,
                   hr_approved_at := None,
                   mgmt_approved_by := None,
                   mgmt_approved_at := None \<rparr>;
          note = ''Rejected by '' @ get_full_name by_user @ '': '' @ comments;
          p = (if hr_comments p0 \<noteq> []
               then p0\<lparr>hr_comments := hr_comments p0 @ [CHR 0x0A, CHR 0x0A] @ note\<rparr>
               else p0\<lparr>hr_comments := note\<rparr>)
      in case save p of
           Inl e \<Rightarrow> Inl (e, proc\<lparr>processor.payroll_period := p\<rparr>)
         | Inr p' \<Rightarrow> Inr (proc\<lparr>processor.payroll_period := p'\<rparr>))"

section \<open>Example data\<close>

text \<open>
  A period for January 2025 in draft, a user on leave who acts as preparer and approver,
  an active employee, an entry for the period entered by hand, and three databases: one
  without active employees and without tax tables, one with the active employee, and
  one without active employees that holds the entry.
\<close>

definition example_period :: payroll_period where
  "example_period =
     \<lparr> pid = 1, year = 2025, month = 1, name = ''January 2025'', status = DRAFT,
       prepared_by = None, prepared_at = None,
       hr_approved_by = None, hr_approved_at = None, hr_comments = [],
       mgmt_approved_by = None, mgmt_approved_at = None, mgmt_comments = [],
       total_gross = 0, total_net = 0, total_paye = 0, total_nssf = 0, total_sha = 0,
       total_housing_levy = 0 \<rparr>"

definition example_actor :: user where
  "example_actor =
     \<lparr> uid = 9, first_name = ''Ann'', last_name = ''Lee'', email = ''ann@example.com'',
       employment_status = ON_LEAVE, user.is_active = True,
       user.basic_salary = 0, has_disability = False \<rparr>"

definition example_employee :: user where
  "example_employee =
     \<lparr> uid = 7, first_name = ''Joe'', last_name = ''Doe'', email = ''joe@example.com'',
       employment_status = ACTIVE, user.is_active = True,
       user.basic_salary = 50000, has_disability = False \<rparr>"

definition example_entry :: payroll_entry where
  "example_entry =
     (new_entry 1 7)
       \<lparr> payroll_entry.gross_pay := 100, payroll_entry.net_pay := 80, payroll_entry.paye := 5,
         payroll_entry.nssf := 6, payroll_entry.sha := 4, payroll_entry.housing_levy := 5 \<rparr>"

definition example_db :: db where
  "example_db =
     \<lparr> users = [example_actor], allowance_rows = [], deduction_rows = [], tax_tables = [],
       entries = [] \<rparr>"

definition example_db_staffed :: db where
  "example_db_staffed = example_db\<lparr>users := [example_actor, example_employee]\<rparr>"

definition example_db_entered :: db where
  "example_db_entered = example_db\<lparr>entries := [example_entry]\<rparr>"

definition example_processor :: processor where
  "example_processor = \<lparr> processor.payroll_period = example_period, calculator = DEFAULT_CONFIG \<rparr>"

text \<open>
  An entry of another period (February 2025, primary key 2) for the same employee, a
  database without active employees that holds the entries of both periods, and a
  database with the active employee that already holds the entry of the period.
\<close>

definition example_entry_february :: payroll_entry where
  "example_entry_february =
     (new_entry 2 7)
       \<lparr> payroll_entry.gross_pay := 1000, payroll_entry.net_pay := 800, payroll_entry.paye := 50,
         payroll_entry.nssf := 60, payroll_entry.sha := 40, payroll_entry.housing_levy := 50 \<rparr>"

definition example_db_two_periods :: db where
  "example_db_two_periods = example_db\<lparr>entries := [example_entry_february, example_entry]\<rparr>"

definition example_db_reprocess :: db where
  "example_db_reprocess = example_db_staffed\<lparr>entries := [example_entry]\<rparr>"

text \<open>
  Three configurations that differ from the default in one field: a tier-1 limit of
  40,000 (above the tier-2 limit of 36,000), a mortgage cap of -100, and a personal
  relief of 2,400.005; and the processor with the negative mortgage cap.
\<close>

definition example_config_tiers :: config where
  "example_config_tiers = DEFAULT_CONFIG\<lparr>nssf_tier1_limit := 40000\<rparr>"

definition example_config_negative_cap :: config where
  "example_config_negative_cap = DEFAULT_CONFIG\<lparr>mortgage_interest_max := - 100\<rparr>"

definition example_config_relief :: config where
  "example_config_relief = DEFAULT_CONFIG\<lparr>config.personal_relief := 2400005 / 1000\<rparr>"

definition example_processor_negative_cap :: processor where
  "example_processor_negative_cap =
     \<lparr> processor.payroll_period = example_period, calculator = example_config_negative_cap \<rparr>"

section \<open>The deduction rows of an employee\<close>

text \<open>
  The rows \<^verbatim>\<open>get_employee_deductions\<close> iterates over (the employee's rows valid at the
  period date), the dictionary item it makes of a row, and the rows the calculator sums
  into \<^verbatim>\<open>other_deductions_total\<close>: those whose type is neither loan nor sacco.
\<close>

definition valid_deductions :: "db \<Rightarrow> user \<Rightarrow> date \<Rightarrow> employee_deduction list" where
  "valid_deductions d u period_date =
     filter (\<lambda>r. effective_to_open_or_gte (employee_deduction.effective_to r) period_date)
       (filter (\<lambda>r. employee_deduction.employee r = uid u
                   \<and> effective_from_lte (employee_deduction.effective_from r) period_date)
          (deduction_rows d))"

definition deduction_item_of :: "employee_deduction \<Rightarrow> deduction_item" where
  "deduction_item_of r =
     \<lparr> deduction_item.amount = Some (employee_deduction.amount r),
       type = Some (deduction_type_value (deduction_type r)) \<rparr>"

definition other_bucket :: "employee_deduction list \<Rightarrow> employee_deduction list" where
  "other_bucket rows = filter (\<lambda>r. deduction_type r \<noteq> LOAN \<and> deduction_type r \<noteq> SACCO) rows"

text \<open>
  Two more databases for the active employee: one with a pretax pension row and an
  insurance row under different names, one with a pretax pension row and a sacco row
  under the same name. The rows are in the order of the model (by deduction type).
\<close>

definition example_insurance_row :: employee_deduction where
  "example_insurance_row =
     \<lparr> employee_deduction.employee = 7, deduction_type = INSURANCE,
       employee_deduction.name = ''Cover'', employee_deduction.amount = 2000, is_pretax = False,
       employee_deduction.effective_from = (2024, 1, 1), employee_deduction.effective_to = None \<rparr>"

definition example_pension_row :: employee_deduction where
  "example_pension_row =
     \<lparr> employee_deduction.employee = 7, deduction_type = PENSION,
       employee_deduction.name = ''Pension'', employee_deduction.amount = 1000, is_pretax = True,
       employee_deduction.effective_from = (2024, 1, 1), employee_deduction.effective_to = None \<rparr>"

definition example_scheme_pension_row :: employee_deduction where
  "example_scheme_pension_row =
     \<lparr> employee_deduction.employee = 7, deduction_type = PENSION,
       employee_deduction.name = ''Staff scheme'', employee_deduction.amount = 1000, is_pretax = True,
       employee_deduction.effective_from = (2024, 1, 1), employee_deduction.effective_to = None \<rparr>"

definition example_scheme_sacco_row :: employee_deduction where
  "example_scheme_sacco_row =
     \<lparr> employee_deduction.employee = 7, deduction_type = SACCO,
       employee_deduction.name = ''Staff scheme'', employee_deduction.amount = 500, is_pretax = False,
       employee_deduction.effective_from = (2024, 1, 1), employee_deduction.effective_to = None \<rparr>"

definition example_db_deductions :: db where
  "example_db_deductions =
     example_db_staffed\<lparr>deduction_rows := [example_insurance_row, example_pension_row]\<rparr>"

definition example_db_same_name :: db where
  "example_db_same_name =
     example_db_staffed\<lparr>deduction_rows := [example_scheme_pension_row, example_scheme_sacco_row]\<rparr>"

section \<open>Rounding and the tax walk in the words of the specification\<close>

text \<open>
  Section 4.2 of the specification rounds every monetary value to two decimal places,
  round-half-up as the reference does: the hundredths of the magnitude are cut to a
  whole number, one more is taken when the part cut off is a half or more, and the sign
  is put back. So a value goes to the nearest hundredth and a tie goes away from zero.
\<close>

definition round_half_up_2dp :: "rat \<Rightarrow> rat" where
  "round_half_up_2dp v =
     (let hundredths = \<bar>v\<bar> * 100;
          whole = \<lfloor>hundredths\<rfloor>;
          nearest = (if hundredths - of_int whole < 1 / 2 then whole else whole + 1)
      in if v < 0 then - (of_int nearest / 100) else of_int nearest / 100)"

text \<open>
  Step 5 of the same section: the width of a band is its upper limit minus the upper
  limit of the band before it (zero before the first), and the final band has no width
  limit. The configuration has four bands with an upper limit and the top band.
\<close>

definition spec_band_widths :: "config \<Rightarrow> (rat option \<times> rat) list" where
  "spec_band_widths cfg =
     [(Some (band_1_limit cfg - 0), band_1_rate cfg),
      (Some (band_2_limit cfg - band_1_limit cfg), band_2_rate cfg),
      (Some (band_3_limit cfg - band_2_limit cfg), band_3_rate cfg),
      (Some (band_4_limit cfg - band_3_limit cfg), band_4_rate cfg),
      (None, band_5_rate cfg)]"

text \<open>
  Walking the bands from the lowest, each band consumes \<open>min remaining width\<close> of the
  income at its rate, the tax of each band is rounded before it is added, and the walk
  stops once no income remains.
\<close>

fun walk_bands :: "(rat option \<times> rat) list \<Rightarrow> rat \<Rightarrow> rat" where
  "walk_bands [] remaining_income = 0"
| "walk_bands ((width, rate) # rest) remaining_income =
     (if remaining_income \<le> 0 then 0
      else
        let consumed = (case width of None \<Rightarrow> remaining_income | Some w \<Rightarrow> min remaining_income w)
        in round_half_up_2dp (consumed * rate) + walk_bands rest (remaining_income - consumed))"

definition spec_tax_charged :: "config \<Rightarrow> rat \<Rightarrow> rat" where
  "spec_tax_charged cfg income = walk_bands (spec_band_widths cfg) income"

text \<open>
  For the proofs: the widths of a list of bands given by upper limits, as the loop of
  \<^verbatim>\<open>calculate_tax\<close> forms them from \<^verbatim>\<open>previous_limit\<close>, and the amounts with at most
  two decimals (the integer multiples of 0.01).
\<close>

fun band_widths :: "rat \<Rightarrow> (rat option \<times> rat) list \<Rightarrow> (rat option \<times> rat) list" where
  "band_widths previous_upper [] = []"
| "band_widths previous_upper ((Some upper, rate) # rest) =
     (Some (upper - previous_upper), rate) # band_widths upper rest"
| "band_widths previous_upper ((None, rate) # rest) =
     (None, rate) # band_widths previous_upper rest"

definition cents :: "rat set" where
  "cents = {v. \<exists>k::int. v = of_int k / 100}"

section \<open>Facts about rounding and the default configuration\<close>

lemma floor_rat_numeral_div [simp]:
  "\<lfloor>numeral a / numeral b :: rat\<rfloor> = numeral a div numeral b"
  by (metis floor_divide_of_int_eq of_int_numeral)

lemma floor_rat_half [simp]: "\<lfloor>1 / 2 :: rat\<rfloor> = 0"
  by (simp add: floor_eq_iff)

lemma calc_round_zero [simp]: "calc_round 0 = 0"
  by (simp add: calc_round_def)

lemma calc_round_nonneg: "0 \<le> v \<Longrightarrow> 0 \<le> calc_round v"
  by (simp add: calc_round_def)

lemma calc_round_half_up:
  "calc_round (2005 / 1000) = 201 / 100"
  "calc_round (2004 / 1000) = 2"
  "calc_round (- (2005 / 1000)) = - (201 / 100)"
  "calc_round (208325 / 100) = 208325 / 100"
  by (simp_all add: calc_round_def)

lemma floor_plus_half:
  "\<lfloor>(x :: rat) + 1 / 2\<rfloor> = (if x - of_int \<lfloor>x\<rfloor> < 1 / 2 then \<lfloor>x\<rfloor> else \<lfloor>x\<rfloor> + 1)"
proof -
  have lo: "of_int \<lfloor>x\<rfloor> \<le> x" and hi: "x < of_int \<lfloor>x\<rfloor> + 1"
    by linarith+
  show ?thesis
  proof (cases "x - of_int \<lfloor>x\<rfloor> < 1 / 2")
    case True
    have "of_int \<lfloor>x\<rfloor> \<le> x + 1 / 2" using lo by linarith
    moreover have "x + 1 / 2 < of_int \<lfloor>x\<rfloor> + 1" using True by linarith
    ultimately have "\<lfloor>x + 1 / 2\<rfloor> = \<lfloor>x\<rfloor>" by (rule floor_unique)
    with True show ?thesis by simp
  next
    case False
    have "of_int (\<lfloor>x\<rfloor> + 1) \<le> x + 1 / 2" using False by simp
    moreover have "x + 1 / 2 < of_int (\<lfloor>x\<rfloor> + 1) + 1" using hi by simp
    ultimately have "\<lfloor>x + 1 / 2\<rfloor> = \<lfloor>x\<rfloor> + 1" by (rule floor_unique)
    with False show ?thesis by simp
  qed
qed

text \<open>
  The rounding of the calculator is the rounding of the specification, and that rounding
  gives a multiple of 0.01 at most 0.005 away, farther from zero when exactly 0.005 away.
\<close>

lemma calc_round_half_up_2dp: "calc_round v = round_half_up_2dp v"
proof (cases "0 \<le> v")
  case True
  then have a: "\<bar>v\<bar> = v" by simp
  have "calc_round v = of_int \<lfloor>v * 100 + 1 / 2\<rfloor> / 100"
    using True by (simp add: calc_round_def)
  also have "\<lfloor>v * 100 + 1 / 2\<rfloor>
               = (if v * 100 - of_int \<lfloor>v * 100\<rfloor> < 1 / 2 then \<lfloor>v * 100\<rfloor> else \<lfloor>v * 100\<rfloor> + 1)"
    by (rule floor_plus_half)
  finally show ?thesis
    using True unfolding round_half_up_2dp_def Let_def a by (simp add: not_less [symmetric])
next
  case False
  then have a: "\<bar>v\<bar> * 100 = - v * 100" by simp
  have "calc_round v = - (of_int \<lfloor>- v * 100 + 1 / 2\<rfloor> / 100)"
    using False by (simp add: calc_round_def)
  also have "\<lfloor>- v * 100 + 1 / 2\<rfloor>
               = (if - v * 100 - of_int \<lfloor>- v * 100\<rfloor> < 1 / 2 then \<lfloor>- v * 100\<rfloor>
                  else \<lfloor>- v * 100\<rfloor> + 1)"
    by (rule floor_plus_half)
  finally show ?thesis
    using False unfolding round_half_up_2dp_def Let_def a by (simp add: not_le)
qed

lemma round_half_up_2dp_nearest:
  "\<exists>k::int. round_half_up_2dp v = of_int k / 100"
  "\<bar>round_half_up_2dp v - v\<bar> \<le> 1 / 200"
  "\<bar>round_half_up_2dp v - v\<bar> = 1 / 200 \<Longrightarrow> \<bar>v\<bar> < \<bar>round_half_up_2dp v\<bar>"
proof -
  define h where "h = \<bar>v\<bar> * 100"
  define w where "w = \<lfloor>h\<rfloor>"
  define n where "n = (if h - of_int w < 1 / 2 then w else w + 1)"
  have lo: "of_int w \<le> h" and hi: "h < of_int w + 1"
    unfolding w_def by linarith+
  have r: "round_half_up_2dp v = (if v < 0 then - (of_int n / 100) else of_int n / 100)"
    by (simp add: round_half_up_2dp_def Let_def h_def w_def n_def)
  show "\<exists>k::int. round_half_up_2dp v = of_int k / 100"
  proof (cases "v < 0")
    case True
    then have "round_half_up_2dp v = of_int (- n) / 100" by (simp add: r)
    then show ?thesis by blast
  next
    case False
    then have "round_half_up_2dp v = of_int n / 100" by (simp add: r)
    then show ?thesis by blast
  qed
  have near: "\<bar>of_int n - h\<bar> \<le> 1 / 2"
    using lo hi by (auto simp: n_def abs_if)
  have tie: "\<bar>of_int n - h\<bar> = 1 / 2 \<Longrightarrow> h < of_int n"
    using lo hi by (auto simp: n_def abs_if split: if_splits)
  have d: "\<bar>round_half_up_2dp v - v\<bar> = \<bar>of_int n - h\<bar> / 100"
  proof (cases "v < 0")
    case True
    then have "\<bar>v\<bar> = - v" by simp
    with True have e: "round_half_up_2dp v - v = - ((of_int n - h) / 100)"
      by (simp add: r h_def field_simps)
    show ?thesis by (simp only: e) simp
  next
    case False
    then have "\<bar>v\<bar> = v" by simp
    with False have e: "round_half_up_2dp v - v = (of_int n - h) / 100"
      by (simp add: r h_def field_simps)
    show ?thesis by (simp only: e) simp
  qed
  show "\<bar>round_half_up_2dp v - v\<bar> \<le> 1 / 200"
    using near by (simp add: d)
  assume "\<bar>round_half_up_2dp v - v\<bar> = 1 / 200"
  then have "\<bar>of_int n - h\<bar> = 1 / 2" by (simp add: d)
  then have "h < of_int n" by (rule tie)
  moreover have "0 \<le> h" by (simp add: h_def)
  ultimately have "\<bar>v\<bar> * 100 < \<bar>of_int n :: rat\<bar>" by (simp add: h_def)
  moreover have "\<bar>round_half_up_2dp v\<bar> = \<bar>of_int n :: rat\<bar> / 100"
    by (simp add: r)
  ultimately show "\<bar>v\<bar> < \<bar>round_half_up_2dp v\<bar>" by simp
qed

lemma DEFAULT_CONFIG_fields:
  "band_1_limit DEFAULT_CONFIG = 24000" "band_1_rate DEFAULT_CONFIG = 1 / 10"
  "band_2_limit DEFAULT_CONFIG = 32333" "band_2_rate DEFAULT_CONFIG = 1 / 4"
  "band_3_limit DEFAULT_CONFIG = 500000" "band_3_rate DEFAULT_CONFIG = 3 / 10"
  "band_4_limit DEFAULT_CONFIG = 800000" "band_4_rate DEFAULT_CONFIG = 13 / 40"
  "band_5_rate DEFAULT_CONFIG = 7 / 20"
  "config.personal_relief DEFAULT_CONFIG = 2400"
  "insurance_relief_rate DEFAULT_CONFIG = 3 / 20"
  "insurance_relief_max DEFAULT_CONFIG = 5000"
  "config.disability_exemption DEFAULT_CONFIG = 150000"
  "nssf_tier1_limit DEFAULT_CONFIG = 7000" "nssf_tier1_rate DEFAULT_CONFIG = 3 / 50"
  "nssf_tier2_limit DEFAULT_CONFIG = 36000" "nssf_tier2_rate DEFAULT_CONFIG = 3 / 50"
  "sha_rate DEFAULT_CONFIG = 11 / 400" "housing_levy_rate DEFAULT_CONFIG = 3 / 200"
  "pension_max_deduction DEFAULT_CONFIG = 20000"
  "mortgage_interest_max DEFAULT_CONFIG = 25000"
  by (simp_all add: DEFAULT_CONFIG_def)

lemma example_config_tiers_fields:
  "nssf_tier1_limit example_config_tiers = 40000"
  "nssf_tier1_rate example_config_tiers = 3 / 50"
  "nssf_tier2_limit example_config_tiers = 36000"
  "nssf_tier2_rate example_config_tiers = 3 / 50"
  by (simp_all add: example_config_tiers_def DEFAULT_CONFIG_fields)


lemma example_config_relief_fields:
  "band_1_limit example_config_relief = 24000" "band_1_rate example_config_relief = 1 / 10"
  "band_2_limit example_config_relief = 32333" "band_2_rate example_config_relief = 1 / 4"
  "band_3_limit example_config_relief = 500000" "band_3_rate example_config_relief = 3 / 10"
  "band_4_limit example_config_relief = 800000" "band_4_rate example_config_relief = 13 / 40"
  "band_5_rate example_config_relief = 7 / 20"
  "config.personal_relief example_config_relief = 2400005 / 1000"
  "insurance_relief_rate example_config_relief = 3 / 20"
  "insurance_relief_max example_config_relief = 5000"
  "config.disability_exemption example_config_relief = 150000"
  "nssf_tier1_limit example_config_relief = 7000" "nssf_tier1_rate example_config_relief = 3 / 50"
  "nssf_tier2_limit example_config_relief = 36000" "nssf_tier2_rate example_config_relief = 3 / 50"
  "pension_max_deduction example_config_relief = 20000"
  "mortgage_interest_max example_config_relief = 25000"
  by (simp_all add: example_config_relief_def DEFAULT_CONFIG_fields)

section \<open>Social security contribution\<close>

lemma nssf_formula:
  "calculate_nssf cfg gross =
     calc_round (nssf_tier1_rate cfg * min gross (nssf_tier1_limit cfg))
     + (if gross > nssf_tier1_limit cfg
        then calc_round (nssf_tier2_rate cfg * (min gross (nssf_tier2_limit cfg) - nssf_tier1_limit cfg))
        else 0)"
  by (simp add: calculate_nssf_def Let_def mult.commute)

lemma nssf_formula_spec:
  "calculate_nssf cfg gross =
     round_half_up_2dp (nssf_tier1_rate cfg * min gross (nssf_tier1_limit cfg))
     + (if gross > nssf_tier1_limit cfg
        then round_half_up_2dp
               (nssf_tier2_rate cfg * (min gross (nssf_tier2_limit cfg) - nssf_tier1_limit cfg))
        else 0)"
  by (simp only: nssf_formula calc_round_half_up_2dp)

lemma nssf_examples:
  "calculate_nssf DEFAULT_CONFIG 5000 = 300"
  "calculate_nssf DEFAULT_CONFIG (1675 / 100) = 101 / 100"
  "calculate_nssf DEFAULT_CONFIG (2000033 / 100) = 120002 / 100"
  "calculate_nssf DEFAULT_CONFIG 100000 = 2160"
  "calculate_nssf example_config_tiers 38000 = 2280"
  "calculate_nssf example_config_tiers 50000 = 2160"
  by (simp_all add: nssf_formula DEFAULT_CONFIG_fields example_config_tiers_fields calc_round_def)

text \<open>
  C5, as amended. For every gross pay the contribution is the tier-1 part
  \<open>rate1 * min gross limit1\<close> rounded to two decimals half-up plus, when the gross pay
  exceeds the tier-1 limit, the tier-2 part \<open>rate2 * (min gross limit2 - limit1)\<close>
  rounded the same way. Up to the tier-1 limit it is \<open>rate1 * gross\<close> rounded. In a
  configuration whose tier-1 limit is not above its tier-2 limit, from the tier-2 limit
  on it is the fixed value \<open>round (rate1 * limit1) + round (rate2 * (limit2 - limit1))\<close>,
  in which the gross pay does not occur.
\<close>

theorem nssf_two_tier:
  "calculate_nssf cfg gross =
     round_half_up_2dp (nssf_tier1_rate cfg * min gross (nssf_tier1_limit cfg))
     + (if gross > nssf_tier1_limit cfg
        then round_half_up_2dp
               (nssf_tier2_rate cfg * (min gross (nssf_tier2_limit cfg) - nssf_tier1_limit cfg))
        else 0)
   \<and> (gross \<le> nssf_tier1_limit cfg \<longrightarrow>
        calculate_nssf cfg gross = round_half_up_2dp (nssf_tier1_rate cfg * gross))
   \<and> (nssf_tier1_limit cfg \<le> nssf_tier2_limit cfg \<and> nssf_tier2_limit cfg \<le> gross \<longrightarrow>
        calculate_nssf cfg gross =
          round_half_up_2dp (nssf_tier1_rate cfg * nssf_tier1_limit cfg)
          + round_half_up_2dp
              (nssf_tier2_rate cfg * (nssf_tier2_limit cfg - nssf_tier1_limit cfg)))"
proof (intro conjI impI)
  show "calculate_nssf cfg gross =
     round_half_up_2dp (nssf_tier1_rate cfg * min gross (nssf_tier1_limit cfg))
     + (if gross > nssf_tier1_limit cfg
        then round_half_up_2dp
               (nssf_tier2_rate cfg * (min gross (nssf_tier2_limit cfg) - nssf_tier1_limit cfg))
        else 0)"
    by (rule nssf_formula_spec)
next
  assume "gross \<le> nssf_tier1_limit cfg"
  then show "calculate_nssf cfg gross = round_half_up_2dp (nssf_tier1_rate cfg * gross)"
    by (simp add: nssf_formula_spec min_def)
next
  assume a: "nssf_tier1_limit cfg \<le> nssf_tier2_limit cfg \<and> nssf_tier2_limit cfg \<le> gross"
  show "calculate_nssf cfg gross =
          round_half_up_2dp (nssf_tier1_rate cfg * nssf_tier1_limit cfg)
          + round_half_up_2dp
              (nssf_tier2_rate cfg * (nssf_tier2_limit cfg - nssf_tier1_limit cfg))"
  proof (cases "gross > nssf_tier1_limit cfg")
    case True
    from a have "min gross (nssf_tier2_limit cfg) = nssf_tier2_limit cfg"
      and "min gross (nssf_tier1_limit cfg) = nssf_tier1_limit cfg"
      by simp_all
    with True show ?thesis by (simp add: nssf_formula_spec)
  next
    case False
    with a have "gross = nssf_tier1_limit cfg" "nssf_tier2_limit cfg = nssf_tier1_limit cfg"
      by auto
    then show ?thesis
      by (simp add: nssf_formula_spec calc_round_half_up_2dp [symmetric])
  qed
qed

text \<open>
  The default configuration at 5,000 and at 16.75 (below the tier-1 limit; 6% of 16.75
  is 1.005, a tie, which goes up to 1.01), at 20,000.33 (between the limits; the tier-2
  part 780.0198 goes to 780.02), and at 100,000 (above the tier-2 limit).
\<close>

theorem nssf_two_tier_witness:
  "(5000 :: rat) \<le> nssf_tier1_limit DEFAULT_CONFIG
   \<and> calculate_nssf DEFAULT_CONFIG 5000 = 300
   \<and> round_half_up_2dp (nssf_tier1_rate DEFAULT_CONFIG * (1675 / 100)) = 101 / 100
   \<and> calculate_nssf DEFAULT_CONFIG (1675 / 100) = 101 / 100
   \<and> calculate_nssf DEFAULT_CONFIG (2000033 / 100) = 120002 / 100
   \<and> nssf_tier1_limit DEFAULT_CONFIG \<le> nssf_tier2_limit DEFAULT_CONFIG
   \<and> nssf_tier2_limit DEFAULT_CONFIG \<le> 100000
   \<and> calculate_nssf DEFAULT_CONFIG 100000 = 2160"
  using nssf_two_tier [of DEFAULT_CONFIG 5000] nssf_two_tier [of DEFAULT_CONFIG "1675 / 100"]
        nssf_two_tier [of DEFAULT_CONFIG "2000033 / 100"] nssf_two_tier [of DEFAULT_CONFIG 100000]
  by (simp add: DEFAULT_CONFIG_fields round_half_up_2dp_def Let_def)

text \<open>
  Against C5 as stated: with a tier-1 limit of 40,000 and the tier-2 limit of 36,000, the
  gross pays 38,000 and 50,000 are both at or above the tier-2 limit, and the
  contribution is 2,280 for the first and 2,160 for the second.
\<close>

theorem nssf_cap_counterexample:
  "nssf_tier2_limit example_config_tiers \<le> 38000
   \<and> nssf_tier2_limit example_config_tiers \<le> 50000
   \<and> calculate_nssf example_config_tiers 38000 = 2280
   \<and> calculate_nssf example_config_tiers 50000 = 2160"
  by (simp add: nssf_examples example_config_tiers_fields)

section \<open>Tax charged\<close>

lemma tax_loop_walk:
  "tax_loop bs tax remaining previous = tax + walk_bands (band_widths previous bs) remaining"
proof (induction bs arbitrary: tax remaining previous)
  case Nil
  show ?case by simp
next
  case (Cons band rest)
  obtain limit rate where band: "band = (limit, rate)" by (cases band)
  show ?case
  proof (cases limit)
    case None
    with band Cons.IH show ?thesis by (simp add: Let_def calc_round_half_up_2dp)
  next
    case (Some l)
    with band Cons.IH show ?thesis by (simp add: Let_def calc_round_half_up_2dp)
  qed
qed

lemma band_widths_bands: "band_widths 0 (bands cfg) = spec_band_widths cfg"
  by (simp add: bands_def spec_band_widths_def)

lemma calculate_tax_eq_walk:
  "calculate_tax cfg income = walk_bands (spec_band_widths cfg) income"
proof (cases "income \<le> 0")
  case True
  then show ?thesis by (simp add: calculate_tax_def spec_band_widths_def)
next
  case False
  then show ?thesis by (simp add: calculate_tax_def tax_loop_walk band_widths_bands)
qed

lemma calculate_tax_default_30000: "calculate_tax DEFAULT_CONFIG 30000 = 3900"
  by (simp add: calculate_tax_def bands_def DEFAULT_CONFIG_fields calc_round_def)

lemma calculate_tax_default_examples:
  "calculate_tax DEFAULT_CONFIG 20000 = 2000"
  "calculate_tax DEFAULT_CONFIG (100005 / 100) = 10001 / 100"
  "calculate_tax DEFAULT_CONFIG 47840 = 913535 / 100"
  "calculate_tax DEFAULT_CONFIG (90000013 / 100) = 27728340 / 100"
  by (simp_all add: calculate_tax_def bands_def DEFAULT_CONFIG_fields calc_round_def)

text \<open>
  C6. For every taxable income (so for every non-negative one) the tax charged by
  \<open>calculate_tax\<close> is the walk of the specification: over the five bands of the
  configuration, with band widths from consecutive upper limits and the top band
  unbounded, each band's tax rounded to two decimals half-up before it is added,
  stopping when no income remains. Under the default configuration a taxable income of
  30,000 is charged 3,900.00; 1,000.05 is charged 100.01 (the tie 100.005 goes up),
  47,840 is charged 9,135.35 over three bands, and 900,000.13 is charged 277,283.40 over
  all five (the top band's 35,000.0455 goes to 35,000.05).
\<close>

theorem calculate_tax_walks_bands:
  "calculate_tax cfg income = spec_tax_charged cfg income
   \<and> calculate_tax DEFAULT_CONFIG 30000 = 3900
   \<and> calculate_tax DEFAULT_CONFIG (100005 / 100) = 10001 / 100
   \<and> calculate_tax DEFAULT_CONFIG 47840 = 913535 / 100
   \<and> calculate_tax DEFAULT_CONFIG (90000013 / 100) = 27728340 / 100"
proof (intro conjI)
  show "calculate_tax cfg income = spec_tax_charged cfg income"
    by (simp only: spec_tax_charged_def calculate_tax_eq_walk)
  show "calculate_tax DEFAULT_CONFIG 30000 = 3900"
    by (rule calculate_tax_default_30000)
  show "calculate_tax DEFAULT_CONFIG (100005 / 100) = 10001 / 100"
    by (rule calculate_tax_default_examples)
  show "calculate_tax DEFAULT_CONFIG 47840 = 913535 / 100"
    by (rule calculate_tax_default_examples)
  show "calculate_tax DEFAULT_CONFIG (90000013 / 100) = 27728340 / 100"
    by (rule calculate_tax_default_examples)
qed

section \<open>Amounts with two decimals\<close>

lemma calc_round_cents: "calc_round v \<in> cents"
proof (cases "0 \<le> v")
  case True
  then show ?thesis unfolding cents_def calc_round_def by auto
next
  case False
  then have "calc_round v = of_int (- \<lfloor>- v * 100 + 1 / 2\<rfloor>) / 100"
    by (simp add: calc_round_def)
  then show ?thesis unfolding cents_def by blast
qed

lemma floor_int_plus_half: "\<lfloor>(of_int k :: rat) + 1 / 2\<rfloor> = k"
  by (simp add: floor_eq_iff)

lemma calc_round_of_cents: "v \<in> cents \<Longrightarrow> calc_round v = v"
proof -
  assume "v \<in> cents"
  then obtain k :: int where v: "v = of_int k / 100" by (auto simp: cents_def)
  show ?thesis
  proof (cases "0 \<le> k")
    case True
    then have "0 \<le> v" by (simp add: v)
    then show ?thesis by (simp add: calc_round_def v floor_int_plus_half)
  next
    case False
    then have neg: "\<not> 0 \<le> v" by (simp add: v)
    have "\<lfloor>- v * 100 + 1 / 2\<rfloor> = \<lfloor>(of_int (- k) :: rat) + 1 / 2\<rfloor>" by (simp add: v)
    also have "\<dots> = - k" by (rule floor_int_plus_half)
    finally show ?thesis using neg by (simp add: calc_round_def v)
  qed
qed

lemma cents_zero [simp]: "0 \<in> cents"
  unfolding cents_def by (rule CollectI, rule exI [of _ 0]) simp

lemma cents_add: "a \<in> cents \<Longrightarrow> b \<in> cents \<Longrightarrow> a + b \<in> cents"
proof -
  assume "a \<in> cents" "b \<in> cents"
  then obtain k l :: int where "a = of_int k / 100" "b = of_int l / 100"
    by (auto simp: cents_def)
  then have "a + b = of_int (k + l) / 100" by (simp add: add_divide_distrib)
  then show ?thesis unfolding cents_def by blast
qed

lemma round_half_up_2dp_cents: "round_half_up_2dp v \<in> cents"
  using calc_round_cents [of v] by (simp add: calc_round_half_up_2dp)

lemma walk_bands_cents: "walk_bands ws remaining \<in> cents"
  by (induction ws remaining rule: walk_bands.induct)
     (auto simp: Let_def round_half_up_2dp_cents cents_add)

lemma calculate_tax_cents: "calculate_tax cfg income \<in> cents"
  by (simp add: calculate_tax_eq_walk walk_bands_cents)

section \<open>PAYE\<close>

lemma calculate_paye:
  "payroll_result.paye (calculate cfg basic allowances deductions pension mortgage premium disabled) =
     (let gross = basic + fst (sum_allowances allowances (0, 0)) + snd (sum_allowances allowances (0, 0));
          taxable_inc = max (gross - calculate_nssf cfg gross - min pension (pension_max_deduction cfg)
                               - min mortgage (mortgage_interest_max cfg)) 0;
          tax = calculate_tax cfg taxable_inc;
          total_relief = config.personal_relief cfg + calculate_insurance_relief cfg premium
                         + (if disabled then config.disability_exemption cfg else 0)
      in calc_round (max (tax - total_relief) 0))"
  unfolding calculate_def Let_def split_beta payroll_result.select_convs ..

lemma calculate_tax_charged:
  "payroll_result.tax_charged (calculate cfg basic allowances deductions pension mortgage premium disabled) =
     (let gross = basic + fst (sum_allowances allowances (0, 0)) + snd (sum_allowances allowances (0, 0));
          taxable_inc = max (gross - calculate_nssf cfg gross - min pension (pension_max_deduction cfg)
                               - min mortgage (mortgage_interest_max cfg)) 0
      in calculate_tax cfg taxable_inc)"
  unfolding calculate_def Let_def split_beta payroll_result.select_convs
  by (rule calc_round_of_cents) (rule calculate_tax_cents)

lemma calculate_net_pay:
  "payroll_result.net_pay (calculate cfg basic allowances deductions pension mortgage premium disabled) =
     (let gross = basic + fst (sum_allowances allowances (0, 0)) + snd (sum_allowances allowances (0, 0));
          r = calculate cfg basic allowances deductions pension mortgage premium disabled
      in calc_round (gross - (payroll_result.paye r + calculate_nssf cfg gross + calculate_sha cfg gross
            + calculate_housing_levy cfg gross
            + fst (sum_deductions deductions (0, 0, 0))
            + fst (snd (sum_deductions deductions (0, 0, 0)))
            + snd (snd (sum_deductions deductions (0, 0, 0))))))"
  unfolding calculate_def Let_def split_beta payroll_result.select_convs ..

lemma insurance_relief_spec:
  "calculate_insurance_relief cfg premium =
     min (round_half_up_2dp (premium * insurance_relief_rate cfg)) (insurance_relief_max cfg)"
  by (simp add: calculate_insurance_relief_def Let_def calc_round_half_up_2dp)

lemma default_nssf_50000: "calculate_nssf DEFAULT_CONFIG 50000 = 2160"
  by (simp add: nssf_formula DEFAULT_CONFIG_fields calc_round_def)

lemma default_tax_47840: "calculate_tax DEFAULT_CONFIG 47840 = 182707 / 20"
  by (simp add: calculate_tax_def bands_def DEFAULT_CONFIG_fields calc_round_def)

lemma relief_nssf_50000: "calculate_nssf example_config_relief 50000 = 2160"
  by (simp add: nssf_formula example_config_relief_fields calc_round_def)

lemma relief_tax_47840: "calculate_tax example_config_relief 47840 = 182707 / 20"
  by (simp add: calculate_tax_def bands_def example_config_relief_fields calc_round_def)

lemma default_paye_50000:
  "payroll_result.paye (calculate DEFAULT_CONFIG 50000 [] [] 0 0 0 True) = 0"
  "payroll_result.paye (calculate DEFAULT_CONFIG 50000 [] [] 0 0 0 False) = 134707 / 20"
  "payroll_result.paye (calculate DEFAULT_CONFIG 50000 [] [] 0 0 50000 False) = 173535 / 100"
  by (simp_all add: calculate_paye default_nssf_50000 default_tax_47840 calculate_insurance_relief_def
        DEFAULT_CONFIG_fields calc_round_def)

lemma relief_paye_50000:
  "payroll_result.paye (calculate example_config_relief 50000 [] [] 0 0 0 False) = 673535 / 100"
  by (simp add: calculate_paye relief_nssf_50000 relief_tax_47840 calculate_insurance_relief_def
        example_config_relief_fields calc_round_def)

lemma default_net_50000:
  "payroll_result.net_pay (calculate DEFAULT_CONFIG 50000 [] [] 0 0 0 True) = 45715"
  "payroll_result.net_pay (calculate DEFAULT_CONFIG 50000 [] [] 0 0 0 False) = 779593 / 20"
  by (simp_all add: calculate_net_pay default_paye_50000 default_nssf_50000 calculate_sha_def
        calculate_housing_levy_def DEFAULT_CONFIG_fields calc_round_def)

text \<open>
  C7. For every input of \<open>calculate\<close>, with the tax charged on the taxable income as
  the function computes it, and the total relief made of the personal relief, the
  insurance relief (the premium times the relief rate, rounded, and capped at the
  configured maximum) and the disability exemption when the flag is set: the stored tax
  charged is that tax, PAYE is \<open>max (tax - total_relief) 0\<close> rounded to two decimals
  half-up, PAYE is never negative, and PAYE is zero whenever the total relief is at
  least the tax. Under the default configuration a basic salary of 50,000 with the
  disability flag gives PAYE 0.00 and a net pay strictly above the net pay without the
  flag.
\<close>

theorem paye_after_reliefs:
  "(let r = calculate cfg basic allowances deductions pension mortgage premium disabled;
        gross = basic + fst (sum_allowances allowances (0, 0)) + snd (sum_allowances allowances (0, 0));
        taxable_inc = max (gross - calculate_nssf cfg gross - min pension (pension_max_deduction cfg)
                             - min mortgage (mortgage_interest_max cfg)) 0;
        tax = calculate_tax cfg taxable_inc;
        capped_relief = min (round_half_up_2dp (premium * insurance_relief_rate cfg))
                          (insurance_relief_max cfg);
        total_relief = config.personal_relief cfg + capped_relief
                       + (if disabled then config.disability_exemption cfg else 0)
    in payroll_result.tax_charged r = tax
       \<and> payroll_result.paye r = round_half_up_2dp (max (tax - total_relief) 0)
       \<and> 0 \<le> payroll_result.paye r
       \<and> (tax \<le> total_relief \<longrightarrow> payroll_result.paye r = 0))
   \<and> payroll_result.paye (calculate DEFAULT_CONFIG 50000 [] [] 0 0 0 True) = 0
   \<and> payroll_result.net_pay (calculate DEFAULT_CONFIG 50000 [] [] 0 0 0 False)
       < payroll_result.net_pay (calculate DEFAULT_CONFIG 50000 [] [] 0 0 0 True)"
proof (intro conjI)
  show "let r = calculate cfg basic allowances deductions pension mortgage premium disabled;
        gross = basic + fst (sum_allowances allowances (0, 0)) + snd (sum_allowances allowances (0, 0));
        taxable_inc = max (gross - calculate_nssf cfg gross - min pension (pension_max_deduction cfg)
                             - min mortgage (mortgage_interest_max cfg)) 0;
        tax = calculate_tax cfg taxable_inc;
        capped_relief = min (round_half_up_2dp (premium * insurance_relief_rate cfg))
                          (insurance_relief_max cfg);
        total_relief = config.personal_relief cfg + capped_relief
                       + (if disabled then config.disability_exemption cfg else 0)
    in payroll_result.tax_charged r = tax
       \<and> payroll_result.paye r = round_half_up_2dp (max (tax - total_relief) 0)
       \<and> 0 \<le> payroll_result.paye r
       \<and> (tax \<le> total_relief \<longrightarrow> payroll_result.paye r = 0)"
    unfolding Let_def
    by (simp only: calculate_paye calculate_tax_charged Let_def insurance_relief_spec
          calc_round_half_up_2dp [symmetric])
       (simp add: calc_round_nonneg max_def)
next
  show "payroll_result.paye (calculate DEFAULT_CONFIG 50000 [] [] 0 0 0 True) = 0"
    by (rule default_paye_50000)
next
  show "payroll_result.net_pay (calculate DEFAULT_CONFIG 50000 [] [] 0 0 0 False)
       < payroll_result.net_pay (calculate DEFAULT_CONFIG 50000 [] [] 0 0 0 True)"
    by (simp add: default_net_50000)
qed

text \<open>
  The default configuration, basic salary 50,000. With the disability flag the tax
  charged on 47,840 is below the relief of 152,400 and PAYE is zero. With a premium of
  50,000 the relief rate gives 7,500, the cap leaves 5,000, and PAYE is
  9,135.35 - 7,400 = 1,735.35. With a personal relief of 2,400.005 the difference
  6,735.345 is a tie and PAYE is 6,735.35.
\<close>

theorem paye_after_reliefs_witness:
  "calculate_tax DEFAULT_CONFIG 47840
     \<le> config.personal_relief DEFAULT_CONFIG
        + min (round_half_up_2dp (0 * insurance_relief_rate DEFAULT_CONFIG))
            (insurance_relief_max DEFAULT_CONFIG)
        + config.disability_exemption DEFAULT_CONFIG
   \<and> payroll_result.paye (calculate DEFAULT_CONFIG 50000 [] [] 0 0 0 True) = 0
   \<and> round_half_up_2dp (50000 * insurance_relief_rate DEFAULT_CONFIG) = 7500
   \<and> payroll_result.paye (calculate DEFAULT_CONFIG 50000 [] [] 0 0 50000 False) = 173535 / 100
   \<and> payroll_result.paye (calculate example_config_relief 50000 [] [] 0 0 0 False) = 673535 / 100"
  using paye_after_reliefs [of DEFAULT_CONFIG 50000 "[]" "[]" 0 0 0 True]
        paye_after_reliefs [of DEFAULT_CONFIG 50000 "[]" "[]" 0 0 50000 False]
        paye_after_reliefs [of example_config_relief 50000 "[]" "[]" 0 0 0 False]
  by (simp add: Let_def default_nssf_50000 default_tax_47840 relief_nssf_50000 relief_tax_47840
        DEFAULT_CONFIG_fields example_config_relief_fields round_half_up_2dp_def)

section \<open>The allowance lookup and the batch run\<close>

lemma resolve_models: "resolve_global ''models'' = Inl (NameError ''models'')"
  by (simp add: resolve_global_def processor_module_names_def)

lemma get_employee_allowances_raises:
  "get_employee_allowances d u period_date = Inl (NameError ''models'')"
  by (simp add: get_employee_allowances_def resolve_models)

lemma process_employee_error:
  "process_employee proc d u =
     Inl (case datetime_date_first (year (processor.payroll_period proc))
                 (month (processor.payroll_period proc)) of
            Inl e \<Rightarrow> e
          | Inr period_date \<Rightarrow> NameError ''models'')"
  by (simp add: process_employee_def get_employee_allowances_raises split: sum.split)

lemma process_employee_raises: "\<exists>e. process_employee proc d u = Inl e"
  by (simp add: process_employee_error)

lemma process_employees_error:
  "us \<noteq> [] \<Longrightarrow>
     process_employees proc d us =
       Inl (case datetime_date_first (year (processor.payroll_period proc))
                   (month (processor.payroll_period proc)) of
              Inl e \<Rightarrow> e
            | Inr period_date \<Rightarrow> NameError ''models'')"
  by (cases us) (simp_all add: process_employee_error)

lemma process_employees_raises: "us \<noteq> [] \<Longrightarrow> \<exists>e. process_employees proc d us = Inl e"
proof (cases us)
  case Nil
  assume "us \<noteq> []"
  with Nil show ?thesis by simp
next
  case (Cons u rest)
  obtain e where "process_employee proc d u = Inl e"
    using process_employee_raises by blast
  with Cons show ?thesis by simp
qed

lemma process_employees_returns:
  "process_employees proc d us = Inr d' \<Longrightarrow> us = [] \<and> d' = d"
proof (cases us)
  case Nil
  assume "process_employees proc d us = Inr d'"
  with Nil show ?thesis by simp
next
  case (Cons u rest)
  assume r: "process_employees proc d us = Inr d'"
  obtain e where "process_employee proc d u = Inl e"
    using process_employee_raises by blast
  with Cons r show ?thesis by simp
qed

lemma save_keeps:
  "save p = Inr p' \<Longrightarrow>
     pid p' = pid p \<and> status p' = status p
     \<and> total_gross p' = total_gross p \<and> total_net p' = total_net p
     \<and> total_paye p' = total_paye p \<and> total_nssf p' = total_nssf p
     \<and> total_sha p' = total_sha p \<and> total_housing_levy p' = total_housing_levy p"
  by (auto simp: save_def split: if_splits sum.splits)

lemma calculate_totals_returns:
  "calculate_totals rows p = Inr p' \<Longrightarrow>
     pid p' = pid p \<and> status p' = status p
     \<and> total_gross p' = sum_list (map payroll_entry.gross_pay
                            (filter (\<lambda>e. payroll_entry.payroll_period e = pid p) rows))
     \<and> total_net p' = sum_list (map payroll_entry.net_pay
                          (filter (\<lambda>e. payroll_entry.payroll_period e = pid p) rows))
     \<and> total_paye p' = sum_list (map payroll_entry.paye
                           (filter (\<lambda>e. payroll_entry.payroll_period e = pid p) rows))
     \<and> total_nssf p' = sum_list (map payroll_entry.nssf
                           (filter (\<lambda>e. payroll_entry.payroll_period e = pid p) rows))
     \<and> total_sha p' = sum_list (map payroll_entry.sha
                          (filter (\<lambda>e. payroll_entry.payroll_period e = pid p) rows))
     \<and> total_housing_levy p' = sum_list (map payroll_entry.housing_levy
                                    (filter (\<lambda>e. payroll_entry.payroll_period e = pid p) rows))"
proof -
  assume r: "calculate_totals rows p = Inr p'"
  define es where "es = filter (\<lambda>e. payroll_entry.payroll_period e = pid p) rows"
  define q where "q = p\<lparr> total_gross := sum_list (map payroll_entry.gross_pay es),
                  total_net := sum_list (map payroll_entry.net_pay es),
                  total_paye := sum_list (map payroll_entry.paye es),
                  total_nssf := sum_list (map payroll_entry.nssf es),
                  total_sha := sum_list (map payroll_entry.sha es),
                  total_housing_levy := sum_list (map payroll_entry.housing_levy es) \<rparr>"
  from r have "save q = Inr p'"
    by (simp add: calculate_totals_def period_entries_def Let_def q_def es_def split: sum.splits)
  from save_keeps [OF this] show ?thesis by (simp add: q_def es_def)
qed

lemma process_all_returns:
  "process_all proc d by_user now = Inr (d', proc') \<Longrightarrow>
     (\<exists>d1. process_employees proc d (get_active_employees d) = Inr d1 \<and> d' = d1
        \<and> calculate_totals (entries d1)
             ((processor.payroll_period proc)
                \<lparr>prepared_by := Some (uid by_user), prepared_at := Some now, status := PENDING_HR\<rparr>)
           = Inr (processor.payroll_period proc'))"
  by (auto simp: process_all_def Let_def split: sum.splits prod.splits)

lemma example_simps:
  "get_active_employees example_db = []"
  "get_active_employees example_db_entered = []"
  "get_active_employees example_db_staffed = [example_employee]"
  "entries example_db = []"
  "entries example_db_entered = [example_entry]"
  "entries example_db_staffed = []"
  "tax_tables example_db = []"
  by (simp_all add: get_active_employees_def example_db_def example_db_entered_def
        example_db_staffed_def example_actor_def example_employee_def)

lemma example_more_simps:
  "get_active_employees example_db_two_periods = []"
  "entries example_db_two_periods = [example_entry_february, example_entry]"
  "get_active_employees example_db_reprocess = [example_employee]"
  "entries example_db_reprocess = [example_entry]"
  by (simp_all add: get_active_employees_def example_db_def example_db_two_periods_def
        example_db_reprocess_def example_db_staffed_def example_actor_def example_employee_def)

lemma example_period_simps:
  "pid example_period = 1" "name example_period = ''January 2025''"
  "year example_period = 2025" "month example_period = 1"
  "status example_period = DRAFT"
  by (simp_all add: example_period_def)

lemma save_named: "name p \<noteq> [] \<Longrightarrow> save p = Inr p"
  by (simp add: save_def)

lemma example_entry_simps:
  "payroll_entry.payroll_period example_entry = 1"
  "payroll_entry.gross_pay example_entry = 100"
  "payroll_entry.net_pay example_entry = 80"
  "payroll_entry.paye example_entry = 5"
  "payroll_entry.nssf example_entry = 6"
  "payroll_entry.sha example_entry = 4"
  "payroll_entry.housing_levy example_entry = 5"
  by (simp_all add: example_entry_def new_entry_def)

lemma example_entry_key:
  "payroll_entry.payroll_period example_entry = 1" "payroll_entry.employee example_entry = 7"
  by (simp_all add: example_entry_def new_entry_def)

lemma example_entry_february_simps:
  "payroll_entry.payroll_period example_entry_february = 2"
  "payroll_entry.gross_pay example_entry_february = 1000"
  "payroll_entry.net_pay example_entry_february = 800"
  "payroll_entry.paye example_entry_february = 50"
  "payroll_entry.nssf example_entry_february = 60"
  "payroll_entry.sha example_entry_february = 40"
  "payroll_entry.housing_levy example_entry_february = 50"
  by (simp_all add: example_entry_february_def new_entry_def)

lemma process_all_example_db:
  "process_all example_processor example_db example_actor 1000 =
     Inr (example_db,
          example_processor\<lparr>processor.payroll_period :=
            example_period\<lparr>prepared_by := Some 9, prepared_at := Some 1000, status := PENDING_HR\<rparr>\<rparr>)"
  by (simp add: process_all_def example_simps calculate_totals_def period_entries_def save_named
        example_processor_def example_period_def example_actor_def)

lemma process_all_example_db_entered:
  "process_all example_processor example_db_entered example_actor 1000 =
     Inr (example_db_entered,
          example_processor\<lparr>processor.payroll_period :=
            example_period\<lparr>prepared_by := Some 9, prepared_at := Some 1000, status := PENDING_HR,
              total_gross := 100, total_net := 80, total_paye := 5, total_nssf := 6,
              total_sha := 4, total_housing_levy := 5\<rparr>\<rparr>)"
  by (simp add: process_all_def example_simps calculate_totals_def period_entries_def save_named
        example_processor_def example_period_def example_actor_def example_entry_simps)

lemma calculate_totals_two_periods:
  "calculate_totals [example_entry_february, example_entry] example_period =
     Inr (example_period\<lparr>total_gross := 100, total_net := 80, total_paye := 5, total_nssf := 6,
            total_sha := 4, total_housing_levy := 5\<rparr>)"
  by (simp add: calculate_totals_def period_entries_def save_named example_period_def
        example_entry_simps example_entry_february_simps)

lemma process_all_example_db_two_periods:
  "process_all example_processor example_db_two_periods example_actor 1000 =
     Inr (example_db_two_periods,
          example_processor\<lparr>processor.payroll_period :=
            example_period\<lparr>prepared_by := Some 9, prepared_at := Some 1000, status := PENDING_HR,
              total_gross := 100, total_net := 80, total_paye := 5, total_nssf := 6,
              total_sha := 4, total_housing_levy := 5\<rparr>\<rparr>)"
  by (simp add: process_all_def example_more_simps calculate_totals_def period_entries_def save_named
        example_processor_def example_period_def example_actor_def example_entry_simps
        example_entry_february_simps)

lemma process_all_example_db_staffed:
  "process_all example_processor example_db_staffed example_actor 1000 =
     Inl (NameError ''models'', example_processor)"
  by (simp add: process_all_def example_simps process_employee_def datetime_date_first_def
        get_employee_allowances_raises example_processor_def example_period_simps)

lemma process_all_example_db_reprocess:
  "process_all example_processor example_db_reprocess example_actor 1000 =
     Inl (NameError ''models'', example_processor)"
  by (simp add: process_all_def example_more_simps process_employee_def datetime_date_first_def
        get_employee_allowances_raises example_processor_def example_period_simps)

text \<open>
  C8, as amended. The allowance lookup raises \<^verbatim>\<open>NameError\<close> for the name \<^verbatim>\<open>models\<close>,
  for every database, employee and date. So \<open>process_all\<close> raises whenever there is an
  active employee (that \<^verbatim>\<open>NameError\<close>, or the \<^verbatim>\<open>ValueError\<close> of a period whose year
  and month are not a date), with the processor and its period as they were and nothing
  written (an error carries no database). When \<open>process_all\<close> returns, there was no active
  employee, the database is the one it started from, the status is pending HR approval,
  and each of the six totals is the sum of that field over the entries of the database
  whose period is this one: the entries the period already held, so zero when it held
  none.
\<close>

theorem allowance_lookup_name_error:
  "get_employee_allowances d u period_date = Inl (NameError ''models'')
   \<and> (get_active_employees d \<noteq> [] \<longrightarrow>
        process_all proc d by_user now =
          Inl (case datetime_date_first (year (processor.payroll_period proc))
                      (month (processor.payroll_period proc)) of
                 Inl e \<Rightarrow> e
               | Inr period_date \<Rightarrow> NameError ''models'',
               proc))
   \<and> (\<forall>d' proc'. process_all proc d by_user now = Inr (d', proc') \<longrightarrow>
        get_active_employees d = [] \<and> d' = d
        \<and> status (processor.payroll_period proc') = PENDING_HR
        \<and> (let held = filter (\<lambda>e. payroll_entry.payroll_period e = pid (processor.payroll_period proc))
                         (entries d)
           in total_gross (processor.payroll_period proc')
                = sum_list (map payroll_entry.gross_pay held)
              \<and> total_net (processor.payroll_period proc')
                  = sum_list (map payroll_entry.net_pay held)
              \<and> total_paye (processor.payroll_period proc')
                  = sum_list (map payroll_entry.paye held)
              \<and> total_nssf (processor.payroll_period proc')
                  = sum_list (map payroll_entry.nssf held)
              \<and> total_sha (processor.payroll_period proc')
                  = sum_list (map payroll_entry.sha held)
              \<and> total_housing_levy (processor.payroll_period proc')
                  = sum_list (map payroll_entry.housing_levy held)
              \<and> (held = [] \<longrightarrow>
                   total_gross (processor.payroll_period proc') = 0
                   \<and> total_net (processor.payroll_period proc') = 0
                   \<and> total_paye (processor.payroll_period proc') = 0
                   \<and> total_nssf (processor.payroll_period proc') = 0
                   \<and> total_sha (processor.payroll_period proc') = 0
                   \<and> total_housing_levy (processor.payroll_period proc') = 0)))"
proof (intro conjI allI impI)
  show "get_employee_allowances d u period_date = Inl (NameError ''models'')"
    by (rule get_employee_allowances_raises)
next
  assume "get_active_employees d \<noteq> []"
  then show "process_all proc d by_user now =
          Inl (case datetime_date_first (year (processor.payroll_period proc))
                      (month (processor.payroll_period proc)) of
                 Inl e \<Rightarrow> e
               | Inr period_date \<Rightarrow> NameError ''models'',
               proc)"
    by (simp add: process_all_def process_employees_error)
next
  fix d' proc'
  assume r: "process_all proc d by_user now = Inr (d', proc')"
  from process_all_returns [OF r] obtain d1 where
    loop: "process_employees proc d (get_active_employees d) = Inr d1" and d1: "d' = d1" and
    totals: "calculate_totals (entries d1)
               ((processor.payroll_period proc)
                  \<lparr>prepared_by := Some (uid by_user), prepared_at := Some now, status := PENDING_HR\<rparr>)
             = Inr (processor.payroll_period proc')"
    by blast
  from process_employees_returns [OF loop] have empty: "get_active_employees d = []" and same: "d1 = d"
    by simp_all
  note t = calculate_totals_returns [OF totals]
  show "get_active_employees d = []" by (rule empty)
  show "d' = d" using d1 same by simp
  show "status (processor.payroll_period proc') = PENDING_HR" using t by simp
  show "let held = filter (\<lambda>e. payroll_entry.payroll_period e = pid (processor.payroll_period proc))
                         (entries d)
           in total_gross (processor.payroll_period proc')
                = sum_list (map payroll_entry.gross_pay held)
              \<and> total_net (processor.payroll_period proc')
                  = sum_list (map payroll_entry.net_pay held)
              \<and> total_paye (processor.payroll_period proc')
                  = sum_list (map payroll_entry.paye held)
              \<and> total_nssf (processor.payroll_period proc')
                  = sum_list (map payroll_entry.nssf held)
              \<and> total_sha (processor.payroll_period proc')
                  = sum_list (map payroll_entry.sha held)
              \<and> total_housing_levy (processor.payroll_period proc')
                  = sum_list (map payroll_entry.housing_levy held)
              \<and> (held = [] \<longrightarrow>
                   total_gross (processor.payroll_period proc') = 0
                   \<and> total_net (processor.payroll_period proc') = 0
                   \<and> total_paye (processor.payroll_period proc') = 0
                   \<and> total_nssf (processor.payroll_period proc') = 0
                   \<and> total_sha (processor.payroll_period proc') = 0
                   \<and> total_housing_levy (processor.payroll_period proc') = 0)"
    using t same by (simp add: Let_def)
qed

text \<open>
  One active employee: the run raises the \<^verbatim>\<open>NameError\<close>. No active employee and no
  entry: the run returns with zero totals. No active employee and an entry of this
  period beside an entry of another period: the run returns with the amounts of the
  first as totals.
\<close>

theorem allowance_lookup_name_error_witness:
  "get_active_employees example_db_staffed \<noteq> []
   \<and> process_all example_processor example_db_staffed example_actor 1000
       = Inl (NameError ''models'', example_processor)
   \<and> process_all example_processor example_db example_actor 1000
       = Inr (example_db,
              example_processor\<lparr>processor.payroll_period :=
                example_period\<lparr>prepared_by := Some 9, prepared_at := Some 1000,
                  status := PENDING_HR\<rparr>\<rparr>)
   \<and> filter (\<lambda>e. payroll_entry.payroll_period e = pid (processor.payroll_period example_processor))
        (entries example_db) = []
   \<and> get_active_employees example_db = []
   \<and> total_gross (example_period\<lparr>prepared_by := Some 9, prepared_at := Some 1000,
                       status := PENDING_HR\<rparr>) = 0
   \<and> process_all example_processor example_db_two_periods example_actor 1000
       = Inr (example_db_two_periods,
              example_processor\<lparr>processor.payroll_period :=
                example_period\<lparr>prepared_by := Some 9, prepared_at := Some 1000, status := PENDING_HR,
                  total_gross := 100, total_net := 80, total_paye := 5, total_nssf := 6,
                  total_sha := 4, total_housing_levy := 5\<rparr>\<rparr>)
   \<and> sum_list (map payroll_entry.gross_pay
        (filter (\<lambda>e. payroll_entry.payroll_period e = pid (processor.payroll_period example_processor))
           (entries example_db_two_periods))) = 100"
  using allowance_lookup_name_error
          [of example_db_staffed example_employee "(2025, 1, 1)" example_processor example_actor 1000]
        allowance_lookup_name_error
          [of example_db example_employee "(2025, 1, 1)" example_processor example_actor 1000]
        allowance_lookup_name_error
          [of example_db_two_periods example_employee "(2025, 1, 1)" example_processor example_actor 1000]
  by (simp add: process_all_example_db process_all_example_db_staffed
        process_all_example_db_two_periods example_simps example_more_simps example_period_def
        Let_def)

text \<open>
  Against C8 as stated: with no active employee and one entry already held by the
  period, the run completes, stamps pending HR approval, and the totals are the amounts
  of that entry (gross 100, net 80), not zero.
\<close>

theorem completed_run_totals_counterexample:
  "get_active_employees example_db_entered = []
   \<and> entries example_db_entered = [example_entry]
   \<and> payroll_entry.payroll_period example_entry = pid example_period
   \<and> payroll_entry.gross_pay example_entry = 100
   \<and> process_all example_processor example_db_entered example_actor 1000 =
       Inr (example_db_entered,
            example_processor\<lparr>processor.payroll_period :=
              example_period\<lparr>prepared_by := Some 9, prepared_at := Some 1000, status := PENDING_HR,
                total_gross := 100, total_net := 80, total_paye := 5, total_nssf := 6,
                total_sha := 4, total_housing_levy := 5\<rparr>\<rparr>)"
  by (simp add: process_all_example_db_entered example_simps example_entry_simps
        example_period_simps)

text \<open>
  C3. After every successful \<open>process_all\<close>, a first run or a later one, each of the
  six totals stored on the period (gross, net, PAYE, NSSF, SHA, housing levy) is the sum
  of that field over the entries the database then holds whose period is this one, and
  the period is still the one the run started with. The totals are set by the last step
  of the run, \<open>calculate_totals\<close>, on the entries table as the loop over the employees
  left it: for every entries table and period on which that step returns, each total is
  the sum of the field over the entries of the table whose period is this one.
\<close>

theorem totals_equal_entry_sums:
  "(process_all proc d by_user now = Inr (d', proc') \<longrightarrow>
     (let p = processor.payroll_period proc';
          es = filter (\<lambda>e. payroll_entry.payroll_period e = pid p) (entries d')
      in pid p = pid (processor.payroll_period proc)
         \<and> total_gross p = sum_list (map payroll_entry.gross_pay es)
         \<and> total_net p = sum_list (map payroll_entry.net_pay es)
         \<and> total_paye p = sum_list (map payroll_entry.paye es)
         \<and> total_nssf p = sum_list (map payroll_entry.nssf es)
         \<and> total_sha p = sum_list (map payroll_entry.sha es)
         \<and> total_housing_levy p = sum_list (map payroll_entry.housing_levy es)))
   \<and> (calculate_totals rows q = Inr q' \<longrightarrow>
     (let es = filter (\<lambda>e. payroll_entry.payroll_period e = pid q') rows
      in pid q' = pid q
         \<and> total_gross q' = sum_list (map payroll_entry.gross_pay es)
         \<and> total_net q' = sum_list (map payroll_entry.net_pay es)
         \<and> total_paye q' = sum_list (map payroll_entry.paye es)
         \<and> total_nssf q' = sum_list (map payroll_entry.nssf es)
         \<and> total_sha q' = sum_list (map payroll_entry.sha es)
         \<and> total_housing_levy q' = sum_list (map payroll_entry.housing_levy es)))"
proof (intro conjI impI)
  assume r: "process_all proc d by_user now = Inr (d', proc')"
  from process_all_returns [OF r] have
    totals: "calculate_totals (entries d')
               ((processor.payroll_period proc)
                  \<lparr>prepared_by := Some (uid by_user), prepared_at := Some now, status := PENDING_HR\<rparr>)
             = Inr (processor.payroll_period proc')"
    by blast
  note t = calculate_totals_returns [OF totals]
  then show "let p = processor.payroll_period proc';
          es = filter (\<lambda>e. payroll_entry.payroll_period e = pid p) (entries d')
      in pid p = pid (processor.payroll_period proc)
         \<and> total_gross p = sum_list (map payroll_entry.gross_pay es)
         \<and> total_net p = sum_list (map payroll_entry.net_pay es)
         \<and> total_paye p = sum_list (map payroll_entry.paye es)
         \<and> total_nssf p = sum_list (map payroll_entry.nssf es)
         \<and> total_sha p = sum_list (map payroll_entry.sha es)
         \<and> total_housing_levy p = sum_list (map payroll_entry.housing_levy es)"
    by (simp add: Let_def)
next
  assume "calculate_totals rows q = Inr q'"
  note t = calculate_totals_returns [OF this]
  then show "let es = filter (\<lambda>e. payroll_entry.payroll_period e = pid q') rows
      in pid q' = pid q
         \<and> total_gross q' = sum_list (map payroll_entry.gross_pay es)
         \<and> total_net q' = sum_list (map payroll_entry.net_pay es)
         \<and> total_paye q' = sum_list (map payroll_entry.paye es)
         \<and> total_nssf q' = sum_list (map payroll_entry.nssf es)
         \<and> total_sha q' = sum_list (map payroll_entry.sha es)
         \<and> total_housing_levy q' = sum_list (map payroll_entry.housing_levy es)"
    by (simp add: Let_def)
qed

text \<open>
  A database that holds an entry of February (gross 1,000) and an entry of January
  (gross 100), with no active employee: the run for January returns and the totals are
  the amounts of the January entry, 100 and not 1,100. The last step alone on the same
  table gives the same totals.
\<close>

theorem totals_equal_entry_sums_witness:
  "process_all example_processor example_db_two_periods example_actor 1000 =
     Inr (example_db_two_periods,
          example_processor\<lparr>processor.payroll_period :=
            example_period\<lparr>prepared_by := Some 9, prepared_at := Some 1000, status := PENDING_HR,
              total_gross := 100, total_net := 80, total_paye := 5, total_nssf := 6,
              total_sha := 4, total_housing_levy := 5\<rparr>\<rparr>)
   \<and> calculate_totals [example_entry_february, example_entry] example_period =
       Inr (example_period\<lparr>total_gross := 100, total_net := 80, total_paye := 5, total_nssf := 6,
              total_sha := 4, total_housing_levy := 5\<rparr>)
   \<and> entries example_db_two_periods = [example_entry_february, example_entry]
   \<and> payroll_entry.gross_pay example_entry_february = 1000
   \<and> sum_list (map payroll_entry.gross_pay
        (filter (\<lambda>e. payroll_entry.payroll_period e = pid example_period)
           (entries example_db_two_periods))) = 100
   \<and> sum_list (map payroll_entry.housing_levy
        (filter (\<lambda>e. payroll_entry.payroll_period e = pid example_period)
           [example_entry_february, example_entry])) = 5"
  using totals_equal_entry_sums
          [of example_processor example_db_two_periods example_actor 1000 example_db_two_periods
              "example_processor\<lparr>processor.payroll_period :=
                 example_period\<lparr>prepared_by := Some 9, prepared_at := Some 1000, status := PENDING_HR,
                   total_gross := 100, total_net := 80, total_paye := 5, total_nssf := 6,
                   total_sha := 4, total_housing_levy := 5\<rparr>\<rparr>"
              "[example_entry_february, example_entry]" example_period
              "example_period\<lparr>total_gross := 100, total_net := 80, total_paye := 5, total_nssf := 6,
                 total_sha := 4, total_housing_levy := 5\<rparr>"]
  by (simp add: process_all_example_db_two_periods calculate_totals_two_periods example_more_simps
        example_entry_simps example_entry_february_simps Let_def example_period_simps)

section \<open>Configuration lookup and workflow guards\<close>

lemma get_calculator_none:
  "get_active (tax_tables d) None today = None \<Longrightarrow> get_calculator d today = DEFAULT_CONFIG"
  by (simp add: get_calculator_def PayrollCalculator_def)

text \<open>
  C1, as amended. When no tax table is active and effective at the current date (the
  lookup is made without the period date), the processor is built with the default
  configuration of the calculator: every employee result is computed with it, and
  \<open>process_all\<close> runs as it does under the default configuration. No error is raised
  for the missing table.
\<close>

theorem default_configuration_fallback:
  "get_active (tax_tables d) None today = None \<Longrightarrow>
     calculator (PayrollProcessor d today p) = DEFAULT_CONFIG
     \<and> employee_result (PayrollProcessor d today p) d u period_date allowances =
         calculate DEFAULT_CONFIG (user.basic_salary u) allowances
           (get_employee_deductions d u period_date)
           (get_pension_contribution d u period_date) 0
           (get_insurance_premium d u period_date) (has_disability u)
     \<and> process_all (PayrollProcessor d today p) d by_user now =
         process_all \<lparr> processor.payroll_period = p, calculator = DEFAULT_CONFIG \<rparr> d by_user now"
  by (simp add: PayrollProcessor_def get_calculator_none employee_result_def Let_def)

text \<open>A database without tax tables.\<close>

theorem default_configuration_fallback_witness:
  "get_active (tax_tables example_db) None (2025, 6, 1) = None
   \<and> calculator (PayrollProcessor example_db (2025, 6, 1) example_period) = DEFAULT_CONFIG"
  using default_configuration_fallback [of example_db "(2025, 6, 1)" example_period]
  by (simp add: get_active_def first_def example_simps)

text \<open>
  Against C1 as stated: with no tax table at all, so none effective for the period date
  1 January 2025, the processor holds the default configuration and \<open>process_all\<close>
  returns, with the period pending HR approval; with an active employee it raises the
  \<^verbatim>\<open>NameError\<close> of the allowance lookup, not an error about the configuration.
\<close>

theorem configuration_missing_counterexample:
  "get_active (tax_tables example_db) (Some (2025, 1, 1)) (2025, 6, 1) = None
   \<and> PayrollProcessor example_db (2025, 6, 1) example_period = example_processor
   \<and> calculator example_processor = DEFAULT_CONFIG
   \<and> process_all (PayrollProcessor example_db (2025, 6, 1) example_period)
        example_db example_actor 1000
       = Inr (example_db,
              example_processor\<lparr>processor.payroll_period :=
                example_period\<lparr>prepared_by := Some 9, prepared_at := Some 1000,
                  status := PENDING_HR\<rparr>\<rparr>)
   \<and> get_active (tax_tables example_db_staffed) (Some (2025, 1, 1)) (2025, 6, 1) = None
   \<and> process_all (PayrollProcessor example_db_staffed (2025, 6, 1) example_period)
        example_db_staffed example_actor 1000
       = Inl (NameError ''models'', example_processor)"
proof -
  have none: "get_active (tax_tables example_db) None (2025, 6, 1) = None"
    by (simp add: get_active_def first_def example_simps)
  have p: "PayrollProcessor example_db (2025, 6, 1) example_period = example_processor"
    by (simp add: PayrollProcessor_def get_calculator_none [OF none] example_processor_def)
  have tables: "tax_tables example_db_staffed = []"
    by (simp add: example_db_staffed_def example_db_def)
  have none': "get_active (tax_tables example_db_staffed) None (2025, 6, 1) = None"
    by (simp add: get_active_def first_def tables)
  have p': "PayrollProcessor example_db_staffed (2025, 6, 1) example_period = example_processor"
    by (simp add: PayrollProcessor_def get_calculator_none [OF none'] example_processor_def)
  show ?thesis
    by (simp add: p p' process_all_example_db process_all_example_db_staffed)
       (simp add: get_active_def first_def example_simps tables example_processor_def)
qed

lemma approve_hr_guard:
  "status (processor.payroll_period proc) \<noteq> PENDING_HR \<Longrightarrow>
     approve_hr proc by_user comments now
       = Inl (ValueError ''Payroll is not pending HR approval'', proc)"
  by (simp add: approve_hr_def)

lemma approve_management_guard:
  "status (processor.payroll_period proc) \<noteq> PENDING_MANAGEMENT \<Longrightarrow>
     approve_management proc by_user comments now
       = Inl (ValueError ''Payroll is not pending management approval'', proc)"
  by (simp add: approve_management_def)

lemma get_full_name_example: "get_full_name example_actor = ''Ann Lee''"
  by (simp add: get_full_name_def example_actor_def strip_def is_space_def)

text \<open>
  C2. \<open>approve_hr\<close> and \<open>approve_management\<close> check the status (the two lemmas
  above); \<open>reject\<close> and \<open>process_all\<close> do not: \<open>reject\<close> takes a paid period
  back to draft and adds its note, and \<open>process_all\<close> takes an approved period to
  pending HR approval and stamps the preparer.
\<close>

theorem status_guard_missing:
  "reject (example_processor\<lparr>processor.payroll_period := example_period\<lparr>status := PAID\<rparr>\<rparr>)
       example_actor ''late''
     = Inr (example_processor\<lparr>processor.payroll_period :=
              example_period\<lparr>status := DRAFT, hr_comments := ''Rejected by Ann Lee: late''\<rparr>\<rparr>)
   \<and> process_all (example_processor\<lparr>processor.payroll_period := example_period\<lparr>status := APPROVED\<rparr>\<rparr>)
       example_db example_actor 1000
     = Inr (example_db,
            example_processor\<lparr>processor.payroll_period :=
              example_period\<lparr>prepared_by := Some 9, prepared_at := Some 1000,
                status := PENDING_HR\<rparr>\<rparr>)"
proof
  show "reject (example_processor\<lparr>processor.payroll_period := example_period\<lparr>status := PAID\<rparr>\<rparr>)
       example_actor ''late''
     = Inr (example_processor\<lparr>processor.payroll_period :=
              example_period\<lparr>status := DRAFT, hr_comments := ''Rejected by Ann Lee: late''\<rparr>\<rparr>)"
    by (simp add: reject_def get_full_name_example save_named example_processor_def example_period_def)
next
  show "process_all (example_processor\<lparr>processor.payroll_period := example_period\<lparr>status := APPROVED\<rparr>\<rparr>)
       example_db example_actor 1000
     = Inr (example_db,
            example_processor\<lparr>processor.payroll_period :=
              example_period\<lparr>prepared_by := Some 9, prepared_at := Some 1000,
                status := PENDING_HR\<rparr>\<rparr>)"
    by (simp add: process_all_def example_simps calculate_totals_def period_entries_def save_named
        example_processor_def example_period_def example_actor_def)
qed

section \<open>Writing entries\<close>


lemma same_key_apply_defaults [simp]: "same_key p u (apply_defaults r e) = same_key p u e"
  by (simp add: same_key_def apply_defaults_def)

lemma same_key_new_entry [simp]: "same_key p u (new_entry p u)"
  by (simp add: same_key_def new_entry_def)




lemma update_or_create_updates:
  "filter (same_key p u) rows = [found] \<Longrightarrow>
     update_or_create rows p u r =
       Inr (map (\<lambda>e. if same_key p u e then apply_defaults r found else e) rows,
            apply_defaults r found, False)"
  by (simp add: update_or_create_def Let_def)


lemma employee_result_entries [simp]:
  "employee_result proc (d\<lparr>entries := rows\<rparr>) u period_date allowances
     = employee_result proc d u period_date allowances"
  by (simp add: employee_result_def get_employee_deductions_def get_pension_contribution_def
        get_insurance_premium_def)



lemma same_key_iff:
  "same_key p u e \<longleftrightarrow> payroll_entry.payroll_period e = p \<and> payroll_entry.employee e = u"
  by (simp add: same_key_def)

lemma store_employee_example_reprocess:
  "store_employee example_processor example_db_reprocess example_employee (2025, 1, 1) [] =
     Inr (example_db_reprocess
            \<lparr>entries :=
               [apply_defaults
                  (employee_result example_processor example_db_reprocess example_employee
                     (2025, 1, 1) [])
                  example_entry]\<rparr>,
          apply_defaults
            (employee_result example_processor example_db_reprocess example_employee (2025, 1, 1) [])
            example_entry)"
proof -
  have "filter (same_key (pid (processor.payroll_period example_processor)) (uid example_employee))
          (entries example_db_reprocess) = [example_entry]"
    by (simp add: example_more_simps same_key_def example_entry_key example_processor_def
          example_period_simps example_employee_def)
  from update_or_create_updates [OF this] show ?thesis
    by (simp add: store_employee_def Let_def example_more_simps same_key_def example_entry_key
          example_processor_def example_period_simps example_employee_def)
qed

text \<open>
  C4. The code does not reprocess: the active employee has the entry of the period, as a
  first run would have left it, keyed by this period and this employee, and the second
  \<open>process_all\<close> raises the \<^verbatim>\<open>NameError\<close> of the allowance lookup before it reaches
  the write of the entry. The run returns no database and no totals; the entry is not
  updated. The first run, on the database without the entry, raises in the same way, so
  that no run with an active employee ever writes the entry a second run would update.
\<close>

theorem reprocessing_raises:
  "get_active_employees example_db_reprocess = [example_employee]
   \<and> entries example_db_reprocess = [example_entry]
   \<and> payroll_entry.payroll_period example_entry = pid (processor.payroll_period example_processor)
   \<and> payroll_entry.employee example_entry = uid example_employee
   \<and> process_all example_processor example_db_reprocess example_actor 2000
       = Inl (NameError ''models'', example_processor)
   \<and> get_active_employees example_db_staffed = [example_employee]
   \<and> entries example_db_staffed = []
   \<and> process_all example_processor example_db_staffed example_actor 1000
       = Inl (NameError ''models'', example_processor)"
proof -
  have "process_all example_processor example_db_reprocess example_actor 2000
          = Inl (NameError ''models'', example_processor)"
    by (simp add: process_all_def example_more_simps process_employee_def datetime_date_first_def
          get_employee_allowances_raises example_processor_def example_period_simps)
  then show ?thesis
    by (simp add: process_all_example_db_staffed example_simps example_more_simps
          example_entry_key example_employee_def)
       (simp add: example_processor_def example_period_simps)
qed

section \<open>Mortgage interest\<close>


lemma calculate_taxable_income:
  "payroll_result.taxable_income
     (calculate cfg basic allowances deductions pension mortgage premium disabled) =
     (let gross = basic + fst (sum_allowances allowances (0, 0)) + snd (sum_allowances allowances (0, 0))
      in calc_round (max (gross - calculate_nssf cfg gross - min pension (pension_max_deduction cfg)
                            - min mortgage (mortgage_interest_max cfg)) 0))"
  unfolding calculate_def Let_def split_beta payroll_result.select_convs ..






lemma example_employee_fields:
  "uid example_employee = 7" "user.basic_salary example_employee = 50000"
  "has_disability example_employee = False"
  "calculator example_processor = DEFAULT_CONFIG"
  "processor.payroll_period example_processor = example_period"
  "calculator example_processor_negative_cap = example_config_negative_cap"
  "processor.payroll_period example_processor_negative_cap = example_period"
  by (simp_all add: example_employee_def example_processor_def example_processor_negative_cap_def)







section \<open>Pension and insurance rows among the deductions\<close>

lemma dict_set_fresh: "k \<notin> fst ` set acc \<Longrightarrow> dict_set k v acc = acc @ [(k, v)]"
  by (induction acc) auto

lemma fold_dict_set_distinct:
  "distinct (map f rows) \<Longrightarrow> (\<forall>r \<in> set rows. f r \<notin> fst ` set acc) \<Longrightarrow>
     fold (\<lambda>r result. dict_set (f r) (g r) result) rows acc = acc @ map (\<lambda>r. (f r, g r)) rows"
proof (induction rows arbitrary: acc)
  case Nil
  show ?case by simp
next
  case (Cons r rest)
  from Cons.prems have fresh: "f r \<notin> fst ` set acc" by simp
  have step: "dict_set (f r) (g r) acc = acc @ [(f r, g r)]"
    using fresh by (rule dict_set_fresh)
  have d: "distinct (map f rest)" using Cons.prems by simp
  have "\<forall>x \<in> set rest. f x \<notin> fst ` set (acc @ [(f r, g r)])"
  proof
    fix x assume x: "x \<in> set rest"
    with Cons.prems have "f x \<notin> fst ` set acc" by simp
    moreover have "f x \<noteq> f r"
    proof
      assume "f x = f r"
      with x have "f r \<in> f ` set rest" by (metis imageI)
      with Cons.prems show False by simp
    qed
    ultimately show "f x \<notin> fst ` set (acc @ [(f r, g r)])" by auto
  qed
  from Cons.IH [OF d this] step show ?case by simp
qed

lemma get_employee_deductions_distinct:
  "distinct (map employee_deduction.name (valid_deductions d u period_date)) \<Longrightarrow>
     get_employee_deductions d u period_date
       = map (\<lambda>r. (employee_deduction.name r, deduction_item_of r)) (valid_deductions d u period_date)"
proof -
  assume dist: "distinct (map employee_deduction.name (valid_deductions d u period_date))"
  have "get_employee_deductions d u period_date
          = fold (\<lambda>r result. dict_set (employee_deduction.name r) (deduction_item_of r) result)
              (valid_deductions d u period_date) []"
    by (simp add: get_employee_deductions_def valid_deductions_def deduction_item_of_def Let_def)
  also have "\<dots> = [] @ map (\<lambda>r. (employee_deduction.name r, deduction_item_of r))
                          (valid_deductions d u period_date)"
    using dist by (intro fold_dict_set_distinct) simp_all
  finally show ?thesis by simp
qed

lemma deduction_type_value_loan [simp]: "(deduction_type_value t = ''loan'') = (t = LOAN)"
  by (cases t) simp_all

lemma deduction_type_value_sacco [simp]: "(deduction_type_value t = ''sacco'') = (t = SACCO)"
  by (cases t) simp_all

lemma deduction_item_of_simps [simp]:
  "deduction_amount (deduction_item_of r) = employee_deduction.amount r"
  "deduction_type_of (deduction_item_of r) = deduction_type_value (deduction_type r)"
  by (simp_all add: deduction_item_of_def deduction_amount_def deduction_type_of_def)

lemma sum_deductions_rows:
  "sum_deductions (map (\<lambda>r. (employee_deduction.name r, deduction_item_of r)) rows) (a, b, c) =
     (a + sum_list (map employee_deduction.amount (filter (\<lambda>r. deduction_type r = LOAN) rows)),
      b + sum_list (map employee_deduction.amount (filter (\<lambda>r. deduction_type r = SACCO) rows)),
      c + sum_list (map employee_deduction.amount (other_bucket rows)))"
proof (induction rows arbitrary: a b c)
  case Nil
  show ?case by (simp add: other_bucket_def)
next
  case (Cons r rest)
  show ?case
    by (cases "deduction_type r")
       (simp_all add: Cons.IH other_bucket_def Let_def add.assoc)
qed

lemma filter_valid_typed:
  "filter A (filter (\<lambda>x. E x \<and> T x \<and> F x \<and> P x) xs)
     = filter (\<lambda>x. T x \<and> P x) (filter A (filter (\<lambda>x. E x \<and> F x) xs))"
  by (induction xs) auto

lemma filter_valid_typed':
  "filter A (filter (\<lambda>x. E x \<and> T x \<and> F x) xs)
     = filter T (filter A (filter (\<lambda>x. E x \<and> F x) xs))"
  by (induction xs) auto

lemma get_pension_contribution_valid:
  "get_pension_contribution d u period_date =
     (case first (filter (\<lambda>r. deduction_type r = PENSION \<and> is_pretax r)
                    (valid_deductions d u period_date)) of
        Some r \<Rightarrow> employee_deduction.amount r | None \<Rightarrow> 0)"
  by (simp only: get_pension_contribution_def valid_deductions_def Let_def filter_valid_typed)

lemma get_insurance_premium_valid:
  "get_insurance_premium d u period_date =
     (case first (filter (\<lambda>r. deduction_type r = INSURANCE) (valid_deductions d u period_date)) of
        Some r \<Rightarrow> employee_deduction.amount r | None \<Rightarrow> 0)"
  by (simp only: get_insurance_premium_def valid_deductions_def Let_def filter_valid_typed')

lemma first_member: "first (filter P xs) = Some x \<Longrightarrow> x \<in> set xs \<and> P x"
proof -
  assume "first (filter P xs) = Some x"
  then have "x \<in> set (filter P xs)"
    by (cases "filter P xs") (simp_all add: first_def)
  then show ?thesis by simp
qed

lemma calculate_pension_deductible:
  "payroll_result.pension_deductible
     (calculate cfg basic allowances deductions pension mortgage premium disabled)
     = calc_round (min pension (pension_max_deduction cfg))"
  unfolding calculate_def Let_def split_beta payroll_result.select_convs ..

lemma calculate_insurance_relief_field:
  "payroll_result.insurance_relief
     (calculate cfg basic allowances deductions pension mortgage premium disabled)
     = calc_round (calculate_insurance_relief cfg premium)"
  unfolding calculate_def Let_def split_beta payroll_result.select_convs ..

lemma calculate_other_deductions:
  "payroll_result.other_deductions
     (calculate cfg basic allowances deductions pension mortgage premium disabled)
     = calc_round (snd (snd (sum_deductions deductions (0, 0, 0))))"
  unfolding calculate_def Let_def split_beta payroll_result.select_convs ..

lemma calculate_sacco_deductions:
  "payroll_result.sacco_deductions
     (calculate cfg basic allowances deductions pension mortgage premium disabled)
     = calc_round (fst (snd (sum_deductions deductions (0, 0, 0))))"
  unfolding calculate_def Let_def split_beta payroll_result.select_convs ..

lemma calculate_total_deductions:
  "payroll_result.total_deductions
     (calculate cfg basic allowances deductions pension mortgage premium disabled) =
     (let gross = basic + fst (sum_allowances allowances (0, 0)) + snd (sum_allowances allowances (0, 0));
          r = calculate cfg basic allowances deductions pension mortgage premium disabled
      in calc_round (payroll_result.paye r + calculate_nssf cfg gross + calculate_sha cfg gross
            + calculate_housing_levy cfg gross
            + fst (sum_deductions deductions (0, 0, 0))
            + fst (snd (sum_deductions deductions (0, 0, 0)))
            + snd (snd (sum_deductions deductions (0, 0, 0)))))"
  unfolding calculate_def Let_def split_beta payroll_result.select_convs ..

lemma employee_result_calculate:
  "employee_result proc d u period_date allowances =
     calculate (calculator proc) (user.basic_salary u) allowances
       (get_employee_deductions d u period_date)
       (get_pension_contribution d u period_date) 0
       (get_insurance_premium d u period_date) (has_disability u)"
  by (simp add: employee_result_def Let_def)

text \<open>
  C10, as amended. For every employee whose deduction rows valid at the period date have
  pairwise different names: \<open>get_employee_deductions\<close> returns one item per valid row,
  whatever its type, and the calculator sums into \<open>other_deductions\<close> every row whose
  type is neither loan nor sacco; that sum is part of \<open>total_deductions\<close>, which is
  subtracted from the gross pay in \<open>net_pay\<close>. The pretax pension row that
  \<open>get_pension_contribution\<close> takes is counted twice: its amount, capped, is
  subtracted in the taxable income, and the row is one of those summed into
  \<open>other_deductions\<close>. The same holds for the insurance row that
  \<open>get_insurance_premium\<close> takes: its amount gives the insurance relief and is a
  summand of \<open>other_deductions\<close>.
\<close>

theorem valid_rows_counted_twice:
  "distinct (map employee_deduction.name (valid_deductions d u period_date)) \<longrightarrow>
     (let rows = valid_deductions d u period_date;
          cfg = calculator proc;
          r = employee_result proc d u period_date allowances;
          gross = user.basic_salary u + fst (sum_allowances allowances (0, 0))
                  + snd (sum_allowances allowances (0, 0));
          other_total = sum_list (map employee_deduction.amount (other_bucket rows));
          total = payroll_result.paye r + calculate_nssf cfg gross + calculate_sha cfg gross
                  + calculate_housing_levy cfg gross
                  + sum_list (map employee_deduction.amount (filter (\<lambda>x. deduction_type x = LOAN) rows))
                  + sum_list (map employee_deduction.amount (filter (\<lambda>x. deduction_type x = SACCO) rows))
                  + other_total
      in get_employee_deductions d u period_date
           = map (\<lambda>x. (employee_deduction.name x, deduction_item_of x)) rows
         \<and> payroll_result.other_deductions r = calc_round other_total
         \<and> payroll_result.total_deductions r = calc_round total
         \<and> payroll_result.net_pay r = calc_round (gross - total)
         \<and> (\<forall>x. first (filter (\<lambda>x. deduction_type x = PENSION \<and> is_pretax x) rows) = Some x \<longrightarrow>
               payroll_result.pension_deductible r
                 = calc_round (min (employee_deduction.amount x) (pension_max_deduction cfg))
               \<and> payroll_result.taxable_income r
                   = calc_round (max (gross - calculate_nssf cfg gross
                                        - min (employee_deduction.amount x) (pension_max_deduction cfg)
                                        - min 0 (mortgage_interest_max cfg)) 0)
               \<and> x \<in> set (other_bucket rows)
               \<and> other_total = employee_deduction.amount x
                   + sum_list (map employee_deduction.amount (remove1 x (other_bucket rows))))
         \<and> (\<forall>x. first (filter (\<lambda>x. deduction_type x = INSURANCE) rows) = Some x \<longrightarrow>
               payroll_result.insurance_relief r
                 = calc_round (calculate_insurance_relief cfg (employee_deduction.amount x))
               \<and> x \<in> set (other_bucket rows)
               \<and> other_total = employee_deduction.amount x
                   + sum_list (map employee_deduction.amount (remove1 x (other_bucket rows)))))"
proof
  assume dist: "distinct (map employee_deduction.name (valid_deductions d u period_date))"
  let ?rows = "valid_deductions d u period_date"
  let ?cfg = "calculator proc"
  let ?r = "employee_result proc d u period_date allowances"
  let ?gross = "user.basic_salary u + fst (sum_allowances allowances (0, 0))
                  + snd (sum_allowances allowances (0, 0))"
  let ?other = "sum_list (map employee_deduction.amount (other_bucket ?rows))"
  let ?loan = "sum_list (map employee_deduction.amount (filter (\<lambda>x. deduction_type x = LOAN) ?rows))"
  let ?sacco = "sum_list (map employee_deduction.amount (filter (\<lambda>x. deduction_type x = SACCO) ?rows))"
  let ?total = "payroll_result.paye ?r + calculate_nssf ?cfg ?gross + calculate_sha ?cfg ?gross
                  + calculate_housing_levy ?cfg ?gross + ?loan + ?sacco + ?other"
  have items: "get_employee_deductions d u period_date
                 = map (\<lambda>x. (employee_deduction.name x, deduction_item_of x)) ?rows"
    using dist by (rule get_employee_deductions_distinct)
  have sums: "sum_deductions (get_employee_deductions d u period_date) (0, 0, 0)
                = (?loan, ?sacco, ?other)"
    by (simp add: items sum_deductions_rows)
  have other: "payroll_result.other_deductions ?r = calc_round ?other"
    by (simp add: employee_result_calculate calculate_other_deductions sums)
  have total: "payroll_result.total_deductions ?r = calc_round ?total"
    by (simp only: employee_result_calculate calculate_total_deductions Let_def sums fst_conv snd_conv)
  have net: "payroll_result.net_pay ?r = calc_round (?gross - ?total)"
    by (simp only: employee_result_calculate calculate_net_pay Let_def sums fst_conv snd_conv)
  have pension: "\<forall>x. first (filter (\<lambda>x. deduction_type x = PENSION \<and> is_pretax x) ?rows) = Some x \<longrightarrow>
               payroll_result.pension_deductible ?r
                 = calc_round (min (employee_deduction.amount x) (pension_max_deduction ?cfg))
               \<and> payroll_result.taxable_income ?r
                   = calc_round (max (?gross - calculate_nssf ?cfg ?gross
                                        - min (employee_deduction.amount x) (pension_max_deduction ?cfg)
                                        - min 0 (mortgage_interest_max ?cfg)) 0)
               \<and> x \<in> set (other_bucket ?rows)
               \<and> ?other = employee_deduction.amount x
                   + sum_list (map employee_deduction.amount (remove1 x (other_bucket ?rows)))"
  proof (intro allI impI)
    fix x
    assume f: "first (filter (\<lambda>x. deduction_type x = PENSION \<and> is_pretax x) ?rows) = Some x"
    then have contribution: "get_pension_contribution d u period_date = employee_deduction.amount x"
      by (simp add: get_pension_contribution_valid)
    from first_member [OF f] have mem: "x \<in> set (other_bucket ?rows)"
      by (simp add: other_bucket_def)
    have "payroll_result.pension_deductible ?r
            = calc_round (min (employee_deduction.amount x) (pension_max_deduction ?cfg))"
      by (simp add: employee_result_calculate calculate_pension_deductible contribution)
    moreover have "payroll_result.taxable_income ?r
                   = calc_round (max (?gross - calculate_nssf ?cfg ?gross
                                        - min (employee_deduction.amount x) (pension_max_deduction ?cfg)
                                        - min 0 (mortgage_interest_max ?cfg)) 0)"
      by (simp only: employee_result_calculate calculate_taxable_income Let_def contribution)
    moreover have "?other = employee_deduction.amount x
                   + sum_list (map employee_deduction.amount (remove1 x (other_bucket ?rows)))"
      using mem by (rule sum_list_map_remove1)
    ultimately show "payroll_result.pension_deductible ?r
                 = calc_round (min (employee_deduction.amount x) (pension_max_deduction ?cfg))
               \<and> payroll_result.taxable_income ?r
                   = calc_round (max (?gross - calculate_nssf ?cfg ?gross
                                        - min (employee_deduction.amount x) (pension_max_deduction ?cfg)
                                        - min 0 (mortgage_interest_max ?cfg)) 0)
               \<and> x \<in> set (other_bucket ?rows)
               \<and> ?other = employee_deduction.amount x
                   + sum_list (map employee_deduction.amount (remove1 x (other_bucket ?rows)))"
      using mem by blast
  qed
  have insurance: "\<forall>x. first (filter (\<lambda>x. deduction_type x = INSURANCE) ?rows) = Some x \<longrightarrow>
               payroll_result.insurance_relief ?r
                 = calc_round (calculate_insurance_relief ?cfg (employee_deduction.amount x))
               \<and> x \<in> set (other_bucket ?rows)
               \<and> ?other = employee_deduction.amount x
                   + sum_list (map employee_deduction.amount (remove1 x (other_bucket ?rows)))"
  proof (intro allI impI)
    fix x
    assume f: "first (filter (\<lambda>x. deduction_type x = INSURANCE) ?rows) = Some x"
    then have premium: "get_insurance_premium d u period_date = employee_deduction.amount x"
      by (simp add: get_insurance_premium_valid)
    from first_member [OF f] have mem: "x \<in> set (other_bucket ?rows)"
      by (simp add: other_bucket_def)
    have "payroll_result.insurance_relief ?r
            = calc_round (calculate_insurance_relief ?cfg (employee_deduction.amount x))"
      by (simp add: employee_result_calculate calculate_insurance_relief_field premium)
    moreover have "?other = employee_deduction.amount x
                   + sum_list (map employee_deduction.amount (remove1 x (other_bucket ?rows)))"
      using mem by (rule sum_list_map_remove1)
    ultimately show "payroll_result.insurance_relief ?r
                 = calc_round (calculate_insurance_relief ?cfg (employee_deduction.amount x))
               \<and> x \<in> set (other_bucket ?rows)
               \<and> ?other = employee_deduction.amount x
                   + sum_list (map employee_deduction.amount (remove1 x (other_bucket ?rows)))"
      using mem by blast
  qed
  from items other total net pension insurance
  show "let rows = valid_deductions d u period_date;
          cfg = calculator proc;
          r = employee_result proc d u period_date allowances;
          gross = user.basic_salary u + fst (sum_allowances allowances (0, 0))
                  + snd (sum_allowances allowances (0, 0));
          other_total = sum_list (map employee_deduction.amount (other_bucket rows));
          total = payroll_result.paye r + calculate_nssf cfg gross + calculate_sha cfg gross
                  + calculate_housing_levy cfg gross
                  + sum_list (map employee_deduction.amount (filter (\<lambda>x. deduction_type x = LOAN) rows))
                  + sum_list (map employee_deduction.amount (filter (\<lambda>x. deduction_type x = SACCO) rows))
                  + other_total
      in get_employee_deductions d u period_date
           = map (\<lambda>x. (employee_deduction.name x, deduction_item_of x)) rows
         \<and> payroll_result.other_deductions r = calc_round other_total
         \<and> payroll_result.total_deductions r = calc_round total
         \<and> payroll_result.net_pay r = calc_round (gross - total)
         \<and> (\<forall>x. first (filter (\<lambda>x. deduction_type x = PENSION \<and> is_pretax x) rows) = Some x \<longrightarrow>
               payroll_result.pension_deductible r
                 = calc_round (min (employee_deduction.amount x) (pension_max_deduction cfg))
               \<and> payroll_result.taxable_income r
                   = calc_round (max (gross - calculate_nssf cfg gross
                                        - min (employee_deduction.amount x) (pension_max_deduction cfg)
                                        - min 0 (mortgage_interest_max cfg)) 0)
               \<and> x \<in> set (other_bucket rows)
               \<and> other_total = employee_deduction.amount x
                   + sum_list (map employee_deduction.amount (remove1 x (other_bucket rows))))
         \<and> (\<forall>x. first (filter (\<lambda>x. deduction_type x = INSURANCE) rows) = Some x \<longrightarrow>
               payroll_result.insurance_relief r
                 = calc_round (calculate_insurance_relief cfg (employee_deduction.amount x))
               \<and> x \<in> set (other_bucket rows)
               \<and> other_total = employee_deduction.amount x
                   + sum_list (map employee_deduction.amount (remove1 x (other_bucket rows))))"
    unfolding Let_def by (intro conjI)
qed

lemma example_row_fields:
  "employee_deduction.employee example_insurance_row = 7"
  "deduction_type example_insurance_row = INSURANCE"
  "employee_deduction.name example_insurance_row = ''Cover''"
  "employee_deduction.amount example_insurance_row = 2000"
  "employee_deduction.effective_from example_insurance_row = (2024, 1, 1)"
  "employee_deduction.effective_to example_insurance_row = None"
  "employee_deduction.employee example_pension_row = 7"
  "deduction_type example_pension_row = PENSION"
  "employee_deduction.name example_pension_row = ''Pension''"
  "employee_deduction.amount example_pension_row = 1000"
  "is_pretax example_pension_row = True"
  "employee_deduction.effective_from example_pension_row = (2024, 1, 1)"
  "employee_deduction.effective_to example_pension_row = None"
  "employee_deduction.employee example_scheme_pension_row = 7"
  "deduction_type example_scheme_pension_row = PENSION"
  "employee_deduction.name example_scheme_pension_row = ''Staff scheme''"
  "employee_deduction.amount example_scheme_pension_row = 1000"
  "is_pretax example_scheme_pension_row = True"
  "employee_deduction.effective_from example_scheme_pension_row = (2024, 1, 1)"
  "employee_deduction.effective_to example_scheme_pension_row = None"
  "employee_deduction.employee example_scheme_sacco_row = 7"
  "deduction_type example_scheme_sacco_row = SACCO"
  "employee_deduction.name example_scheme_sacco_row = ''Staff scheme''"
  "employee_deduction.amount example_scheme_sacco_row = 500"
  "is_pretax example_scheme_sacco_row = False"
  "employee_deduction.effective_from example_scheme_sacco_row = (2024, 1, 1)"
  "employee_deduction.effective_to example_scheme_sacco_row = None"
  by (simp_all add: example_insurance_row_def example_pension_row_def
        example_scheme_pension_row_def example_scheme_sacco_row_def)

lemma window_2025:
  "effective_from_lte (2024, 1, 1) (2025, 1, 1)"
  "effective_to_open_or_gte None (2025, 1, 1)"
  by (simp_all add: effective_from_lte_def effective_to_open_or_gte_def date_le_def)

lemma example_deduction_rows:
  "deduction_rows example_db_deductions = [example_insurance_row, example_pension_row]"
  "deduction_rows example_db_same_name = [example_scheme_pension_row, example_scheme_sacco_row]"
  by (simp_all add: example_db_deductions_def example_db_same_name_def)

lemma valid_deductions_examples:
  "valid_deductions example_db_deductions example_employee (2025, 1, 1)
     = [example_insurance_row, example_pension_row]"
  "valid_deductions example_db_same_name example_employee (2025, 1, 1)
     = [example_scheme_pension_row, example_scheme_sacco_row]"
  by (simp_all add: valid_deductions_def example_deduction_rows example_row_fields
        example_employee_fields window_2025)

lemma get_employee_deductions_same_name:
  "get_employee_deductions example_db_same_name example_employee (2025, 1, 1)
     = [(''Staff scheme'', deduction_item_of example_scheme_sacco_row)]"
  by (simp add: get_employee_deductions_def example_deduction_rows example_row_fields
        example_employee_fields window_2025 deduction_item_of_def)

lemma get_pension_contribution_same_name:
  "get_pension_contribution example_db_same_name example_employee (2025, 1, 1) = 1000"
  by (simp add: get_pension_contribution_valid valid_deductions_examples example_row_fields first_def)

text \<open>
  Against C10 as stated: an employee with a pretax pension row of 1,000 and a sacco row of
  500 that carry the same name. The dictionary keeps one item under that name, the sacco
  one; the 1,000 are the pension deducted before tax, and no amount is added to
  \<open>other_deductions\<close>.
\<close>

theorem same_name_counterexample:
  "deduction_rows example_db_same_name = [example_scheme_pension_row, example_scheme_sacco_row]
   \<and> deduction_type example_scheme_pension_row = PENSION
   \<and> is_pretax example_scheme_pension_row
   \<and> employee_deduction.amount example_scheme_pension_row = 1000
   \<and> get_pension_contribution example_db_same_name example_employee (2025, 1, 1) = 1000
   \<and> get_employee_deductions example_db_same_name example_employee (2025, 1, 1)
       = [(''Staff scheme'', deduction_item_of example_scheme_sacco_row)]
   \<and> payroll_result.pension_deductible
       (employee_result example_processor example_db_same_name example_employee (2025, 1, 1) []) = 1000
   \<and> payroll_result.other_deductions
       (employee_result example_processor example_db_same_name example_employee (2025, 1, 1) []) = 0
   \<and> payroll_result.sacco_deductions
       (employee_result example_processor example_db_same_name example_employee (2025, 1, 1) []) = 500"
proof -
  have sums: "sum_deductions [(''Staff scheme'', deduction_item_of example_scheme_sacco_row)] (0, 0, 0)
                = (0, 500, 0)"
    by (simp add: example_row_fields)
  have p: "payroll_result.pension_deductible
       (employee_result example_processor example_db_same_name example_employee (2025, 1, 1) []) = 1000"
    by (simp add: employee_result_calculate calculate_pension_deductible
          get_pension_contribution_same_name example_employee_fields DEFAULT_CONFIG_fields
          calc_round_def)
  have o: "payroll_result.other_deductions
       (employee_result example_processor example_db_same_name example_employee (2025, 1, 1) []) = 0"
    by (simp only: employee_result_calculate calculate_other_deductions
          get_employee_deductions_same_name sums snd_conv calc_round_zero)
  have s: "payroll_result.sacco_deductions
       (employee_result example_processor example_db_same_name example_employee (2025, 1, 1) []) = 500"
    by (simp only: employee_result_calculate calculate_sacco_deductions
          get_employee_deductions_same_name sums snd_conv fst_conv)
       (simp add: calc_round_def)
  from p o s show ?thesis
    by (simp add: example_deduction_rows example_row_fields get_pension_contribution_same_name
          get_employee_deductions_same_name)
qed

text \<open>
  An employee with an insurance row of 2,000 and a pretax pension row of 1,000 under
  different names: pension deductible 1,000, insurance relief 300, and both amounts in
  the other deductions of 3,000.
\<close>

theorem valid_rows_counted_twice_witness:
  "distinct (map employee_deduction.name
       (valid_deductions example_db_deductions example_employee (2025, 1, 1)))
   \<and> first (filter (\<lambda>x. deduction_type x = PENSION \<and> is_pretax x)
        (valid_deductions example_db_deductions example_employee (2025, 1, 1)))
       = Some example_pension_row
   \<and> first (filter (\<lambda>x. deduction_type x = INSURANCE)
        (valid_deductions example_db_deductions example_employee (2025, 1, 1)))
       = Some example_insurance_row
   \<and> payroll_result.pension_deductible
       (employee_result example_processor example_db_deductions example_employee (2025, 1, 1) []) = 1000
   \<and> payroll_result.insurance_relief
       (employee_result example_processor example_db_deductions example_employee (2025, 1, 1) []) = 300
   \<and> payroll_result.other_deductions
       (employee_result example_processor example_db_deductions example_employee (2025, 1, 1) []) = 3000"
  using valid_rows_counted_twice
          [of example_db_deductions example_employee "(2025, 1, 1)" example_processor "[]"]
  by (simp add: Let_def valid_deductions_examples example_row_fields first_def other_bucket_def
        example_employee_fields DEFAULT_CONFIG_fields calculate_insurance_relief_def calc_round_def)

end
